theory Spec2Isabelle
  imports Main
begin

section \<open>The calldata generation script\<close>

text \<open>
  A shallow embedding of \<open>scripts/generate_garaga_calldata.py\<close>. The script is a
  command-line program: it takes \<open>sys.argv\<close>, has the garaga library parse a
  verifying key and a proof from two files, has it compute the calldata, and prints the
  result as JSON to a file or to standard output. Everything the script does to the
  outside world (what it prints on which stream, which files it touches, with what exit
  status it ends) is written out as a state that the operations thread through.

  The garaga library is not part of the repository. Its three capabilities, the
  attributes the script reads, and what its calls write to the standard streams are a
  parameter of the model (the record \<open>garaga\<close>).
\<close>

subsection \<open>Python values\<close>

type_synonym path = string

text \<open>
  The exceptions that can leave \<open>main\<close>. \<open>SystemExit n\<close> is what \<open>sys.exit(n)\<close>
  raises; \<open>LibraryError\<close> stands for any exception the library raises, with its text.
\<close>

datatype exn =
    SystemExit nat
  | FileNotFoundError path
  | OSError path
  | LibraryError string

text \<open>
  The values \<open>json.dumps\<close> is given: the script builds a dict (keys in insertion
  order) of a list of \<open>str\<close> and an \<open>int\<close>.
\<close>

datatype json =
    JString string
  | JInt int
  | JArray "json list"
  | JObject "(string \<times> json) list"

subsection \<open>\<open>str\<close> of an integer\<close>

definition digit_char :: "nat \<Rightarrow> char" where
  "digit_char d = ''0123456789'' ! d"

fun str_nat :: "nat \<Rightarrow> string" where
  "str_nat n = (if n < 10 then [digit_char n] else str_nat (n div 10) @ [digit_char (n mod 10)])"

declare str_nat.simps [simp del]

text \<open>
  Python's \<open>str(x)\<close> for an \<open>int\<close>: the decimal digits, most significant first,
  after a minus sign when \<open>x\<close> is negative. (The limit that later interpreters put on
  the number of digits of such a conversion is not modelled.)
\<close>

definition str :: "int \<Rightarrow> string" where
  "str x = (if x < 0 then CHR ''-'' # str_nat (nat (- x)) else str_nat (nat x))"

text \<open>Reading a decimal string back, to say what "decimal representation" means.\<close>

definition digit_val :: "char \<Rightarrow> nat" where
  "digit_val c = of_char c - 48"

definition nat_of_digits :: "string \<Rightarrow> nat" where
  "nat_of_digits ds = foldl (\<lambda>acc c. 10 * acc + digit_val c) 0 ds"

definition int_of_decimal :: "string \<Rightarrow> int" where
  "int_of_decimal s =
     (case s of
        [] \<Rightarrow> 0
      | c # ds \<Rightarrow> if c = CHR ''-'' then - int (nat_of_digits ds) else int (nat_of_digits s))"

definition is_digit :: "char \<Rightarrow> bool" where
  "is_digit c = (c \<in> set ''0123456789'')"

text \<open>A non-empty run of decimal digits, optionally after one leading minus sign.\<close>

definition is_decimal :: "string \<Rightarrow> bool" where
  "is_decimal s =
     (case s of
        [] \<Rightarrow> False
      | c # ds \<Rightarrow>
          if c = CHR ''-'' then ds \<noteq> [] \<and> list_all is_digit ds
          else list_all is_digit s)"

subsection \<open>\<open>json.dumps\<close>\<close>

text \<open>
  The encoder with its default settings: \<open>ensure_ascii\<close>, the separators \<open>", "\<close> and
  \<open>": "\<close>, no indentation. A string is quoted, with the quote, the backslash and
  every character outside the printable ASCII range escaped. Strings are sequences of
  code points below 256 here, so a \<open>\<bsol>uXXXX\<close> escape always starts with \<open>00\<close>.
\<close>

definition hex_digit :: "nat \<Rightarrow> char" where
  "hex_digit d = ''0123456789abcdef'' ! d"

definition escape_char :: "char \<Rightarrow> string" where
  "escape_char c =
     (if c = CHR 0x22 then [CHR 0x5C, CHR 0x22]
      else if c = CHR 0x5C then [CHR 0x5C, CHR 0x5C]
      else if c = CHR 0x0A then [CHR 0x5C, CHR ''n'']
      else if c = CHR 0x0D then [CHR 0x5C, CHR ''r'']
      else if c = CHR 0x09 then [CHR 0x5C, CHR ''t'']
      else if c = CHR 0x08 then [CHR 0x5C, CHR ''b'']
      else if c = CHR 0x0C then [CHR 0x5C, CHR ''f'']
      else if (of_char c :: nat) < 32 \<or> 126 < (of_char c :: nat) then
        [CHR 0x5C, CHR ''u'', CHR ''0'', CHR ''0'',
         hex_digit ((of_char c :: nat) div 16), hex_digit ((of_char c :: nat) mod 16)]
      else [c])"

definition encode_basestring_ascii :: "string \<Rightarrow> string" where
  "encode_basestring_ascii s = [CHR 0x22] @ concat (map escape_char s) @ [CHR 0x22]"

fun join :: "string \<Rightarrow> string list \<Rightarrow> string" where
  "join sep [] = []"
| "join sep [x] = x"
| "join sep (x # y # ys) = x @ sep @ join sep (y # ys)"

definition dumps_item :: "string \<times> string \<Rightarrow> string" where
  "dumps_item kv = encode_basestring_ascii (fst kv) @ '': '' @ snd kv"

primrec dumps :: "json \<Rightarrow> string" where
  "dumps (JString s) = encode_basestring_ascii s"
| "dumps (JInt i) = str i"
| "dumps (JArray xs) = ''['' @ join '', '' (map dumps xs) @ '']''"
| "dumps (JObject kvs) =
     ''{'' @ join '', '' (map dumps_item (map (map_prod id dumps) kvs)) @ ''}''"

subsection \<open>The process and its surroundings\<close>

datatype stream = Stdout | Stderr

text \<open>
  What a call of the library writes to the standard streams while it runs: the texts, in
  order, each with the stream it goes to. The script does not capture or redirect the
  streams around the calls, so these texts reach the streams of the process.
\<close>

type_synonym printed = "(stream \<times> string) list"

text \<open>
  What the process does, in the order in which it does it: a text that the script writes
  to one of the two standard streams, a file handed to a parser of the library to be
  read (with what the library wrote to the streams during the call), the call of the
  library's calldata function (with what it wrote to the streams), a file opened for
  writing (which empties it), a text written to an open file, and the trace that the
  interpreter prints on the error stream for an exception nobody caught.
\<close>

datatype event =
    Written stream string
  | Parsed path printed
  | Computed printed
  | Opened path
  | Dumped path string
  | Traceback exn

text \<open>
  The state: the files by path with their contents, the paths that can be opened for
  writing (a fact of the surroundings that the script never changes), and the events so
  far.
\<close>

record sys =
  files :: "path \<rightharpoonup> string"
  writable :: "path \<Rightarrow> bool"
  events :: "event list"

text \<open>
  A statement of the script takes the state and returns the new state with either its
  value or the exception it raised. \<open>io_bind\<close> is sequencing: an exception skips what
  follows.
\<close>

type_synonym 'a io = "sys \<Rightarrow> (exn + 'a) \<times> sys"

definition raise :: "exn \<Rightarrow> 'a io" where
  "raise e s = (Inl e, s)"

definition io_bind :: "'a io \<Rightarrow> ('a \<Rightarrow> 'b io) \<Rightarrow> 'b io" where
  "io_bind m f s = (case m s of (Inl e, s') \<Rightarrow> (Inl e, s') | (Inr x, s') \<Rightarrow> f x s')"

definition io_then :: "unit io \<Rightarrow> 'b io \<Rightarrow> 'b io" where
  "io_then m k = io_bind m (\<lambda>_. k)"

definition emit :: "event \<Rightarrow> unit io" where
  "emit ev s = (Inr (), s\<lparr>events := events s @ [ev]\<rparr>)"

text \<open>\<open>print(text, file=f)\<close>: the text and a newline, on the stream \<open>f\<close>.\<close>

definition py_print :: "stream \<Rightarrow> string \<Rightarrow> unit io" where
  "py_print f text = emit (Written f (text @ [CHR 0x0A]))"

text \<open>\<open>sys.exit(n)\<close>.\<close>

definition sys_exit :: "nat \<Rightarrow> 'a io" where
  "sys_exit n = raise (SystemExit n)"

text \<open>
  \<open>open(p, "w")\<close>: raises where the path cannot be opened for writing, and otherwise
  creates the file or empties the one that is there.
\<close>

definition open_w :: "path \<Rightarrow> unit io" where
  "open_w p s =
     (if writable s p
      then (Inr (), s\<lparr>files := (files s)(p \<mapsto> []), events := events s @ [Opened p]\<rparr>)
      else (Inl (OSError p), s))"

text \<open>\<open>json.dump(v, f)\<close> on the file opened at \<open>p\<close>: the encoding is appended to it.\<close>

definition json_dump :: "json \<Rightarrow> path \<Rightarrow> unit io" where
  "json_dump v p s =
     (let text = dumps v;
          old = (case files s p of None \<Rightarrow> [] | Some t \<Rightarrow> t)
      in (Inr (), s\<lparr>files := (files s)(p \<mapsto> old @ text),
                       events := events s @ [Dumped p text]\<rparr>))"

subsection \<open>The library\<close>

text \<open>
  The interface of garaga that the script uses. \<open>'vk\<close> and \<open>'pf\<close> are the library's
  \<open>Groth16VerifyingKey\<close> and \<open>Groth16Proof\<close>; the script reads \<open>curve_id\<close> and \<open>ic\<close>
  of the first and \<open>curve_id\<close> of the second, and only to print them, so the curve
  identifier is taken as the text an f-string renders it to. A parser is given the text
  of a file and returns a value or fails with a message; so does the calldata function,
  on a key and a proof. The calldata is a list of Python integers.

  A call of the library may also write to the standard streams, whether it returns or
  raises. The last three fields are what the three calls write: \<open>from_json\<close> of
  either class on a path and the text of the file there (\<open>None\<close> when there is no such
  file), and the calldata function on a key and a proof.
\<close>

record ('vk, 'pf, 'g) garaga =
  parse_vk :: "string \<Rightarrow> string + 'vk"
  parse_proof :: "string \<Rightarrow> string + 'pf"
  groth16_calldata_from_vk_and_proof :: "'vk \<Rightarrow> 'pf \<Rightarrow> string + int list"
  vk_curve_id :: "'vk \<Rightarrow> string"
  ic :: "'vk \<Rightarrow> 'g list"
  proof_curve_id :: "'pf \<Rightarrow> string"
  vk_from_json_prints :: "path \<Rightarrow> string option \<Rightarrow> printed"
  proof_from_json_prints :: "path \<Rightarrow> string option \<Rightarrow> printed"
  calldata_prints :: "'vk \<Rightarrow> 'pf \<Rightarrow> printed"

text \<open>
  Modelled from the spec: \<open>from_json\<close> of the library's two classes, which the spec
  describes as parsing a named file and as failing on a file that is not there. The
  file at the path is read: a missing file raises, and the text of a present one goes
  to the parser, whose failure is raised as the library's exception. What the call
  wrote to the streams is recorded with the call, whether it returned or raised.
\<close>

definition load :: "(string \<Rightarrow> string + 'a) \<Rightarrow> (path \<rightharpoonup> string) \<Rightarrow> path \<Rightarrow> exn + 'a" where
  "load parse fs p =
     (case fs p of
        None \<Rightarrow> Inl (FileNotFoundError p)
      | Some text \<Rightarrow> (case parse text of Inl m \<Rightarrow> Inl (LibraryError m) | Inr v \<Rightarrow> Inr v))"

definition from_json ::
  "(string \<Rightarrow> string + 'a) \<Rightarrow> (path \<Rightarrow> string option \<Rightarrow> printed) \<Rightarrow> path \<Rightarrow> 'a io" where
  "from_json parse prints p s =
     (load parse (files s) p, s\<lparr>events := events s @ [Parsed p (prints p (files s p))]\<rparr>)"

definition calldata_call :: "('vk, 'pf, 'g) garaga \<Rightarrow> 'vk \<Rightarrow> 'pf \<Rightarrow> (int list) io" where
  "calldata_call lib vk pf s =
     ((case groth16_calldata_from_vk_and_proof lib vk pf of
         Inl m \<Rightarrow> Inl (LibraryError m)
       | Inr cd \<Rightarrow> Inr cd),
      s\<lparr>events := events s @ [Computed (calldata_prints lib vk pf)]\<rparr>)"

subsection \<open>The script\<close>

definition usage :: string where
  "usage = ''Usage: python3 generate_garaga_calldata.py <proof_json> <vk_json> [output_json]''"

text \<open>The four f-strings of the diagnostics.\<close>

definition vk_loaded :: "('vk, 'pf, 'g) garaga \<Rightarrow> 'vk \<Rightarrow> string" where
  "vk_loaded lib vk =
     ''VK loaded: curve='' @ vk_curve_id lib vk @ '', IC length='' @ str (int (length (ic lib vk)))"

definition proof_loaded :: "('vk, 'pf, 'g) garaga \<Rightarrow> 'pf \<Rightarrow> string" where
  "proof_loaded lib pf = ''Proof loaded: curve='' @ proof_curve_id lib pf"

definition calldata_generated :: "int list \<Rightarrow> string" where
  "calldata_generated calldata =
     ''Calldata generated: '' @ str (int (length calldata)) @ '' elements''"

definition calldata_written :: "path \<Rightarrow> string" where
  "calldata_written output_path = ''Calldata written to '' @ output_path"

text \<open>The dict of lines 51 to 54.\<close>

definition result :: "int list \<Rightarrow> json" where
  "result calldata =
     JObject [(''calldata'', JArray (map (\<lambda>x. JString (str x)) calldata)),
              (''length'', JInt (int (length calldata)))]"

text \<open>
  \<open>sys.argv[3] if len(sys.argv) > 3 else None\<close>, and the truth value that
  \<open>if output_path:\<close> takes of it: \<open>None\<close> and the empty string are false.
\<close>

definition output_path_of :: "string list \<Rightarrow> path option" where
  "output_path_of argv = (if length argv > 3 then Some (argv ! 3) else None)"

definition truthy :: "path option \<Rightarrow> bool" where
  "truthy output_path = (case output_path of None \<Rightarrow> False | Some p \<Rightarrow> p \<noteq> [])"

definition main :: "('vk, 'pf, 'g) garaga \<Rightarrow> string list \<Rightarrow> unit io" where
  "main lib argv =
     (if length argv < 3 then
        io_then (py_print Stdout usage) (sys_exit 1)
      else
        let proof_path = argv ! 1;
            vk_path = argv ! 2;
            output_path = output_path_of argv
        in
          io_bind (from_json (parse_vk lib) (vk_from_json_prints lib) vk_path) (\<lambda>vk.
          io_then (py_print Stderr (vk_loaded lib vk))
         (io_bind (from_json (parse_proof lib) (proof_from_json_prints lib) proof_path) (\<lambda>proof.
          io_then (py_print Stderr (proof_loaded lib proof))
         (io_bind (calldata_call lib vk proof) (\<lambda>calldata.
          io_then (py_print Stderr (calldata_generated calldata))
         (if truthy output_path then
            io_then (open_w (the output_path))
           (io_then (json_dump (result calldata) (the output_path))
                    (py_print Stderr (calldata_written (the output_path))))
          else
            py_print Stdout (dumps (result calldata)))))))))"

text \<open>
  The process: \<open>main()\<close> is called on the state the process starts in (nothing has
  happened yet). It ends with status 0 when \<open>main\<close> returns, with the status of a
  \<open>SystemExit\<close>, and with status 1 and a trace on the error stream on any other
  exception.
\<close>

record outcome =
  exit_status :: nat
  final :: sys

definition run :: "('vk, 'pf, 'g) garaga \<Rightarrow> string list \<Rightarrow> sys \<Rightarrow> outcome" where
  "run lib argv w =
     (case main lib argv (w\<lparr>events := []\<rparr>) of
        (Inr _, s) \<Rightarrow> \<lparr>exit_status = 0, final = s\<rparr>
      | (Inl (SystemExit n), s) \<Rightarrow> \<lparr>exit_status = n, final = s\<rparr>
      | (Inl e, s) \<Rightarrow> \<lparr>exit_status = 1, final = s\<lparr>events := events s @ [Traceback e]\<rparr>\<rparr>)"

text \<open>
  What the script itself has written to a stream: the texts of its own \<open>print\<close> calls on
  it, one after the other.
\<close>

definition written_to :: "stream \<Rightarrow> event list \<Rightarrow> string" where
  "written_to f evs = concat (map (\<lambda>ev. case ev of Written g t \<Rightarrow> (if g = f then t else []) | _ \<Rightarrow> []) evs)"

text \<open>
  What is on a stream of the process: the texts of the script and the texts that the
  library wrote during its calls, in the order of the events. (The text of a trace is
  not modelled; it goes to the error stream.)
\<close>

definition printed_on :: "stream \<Rightarrow> printed \<Rightarrow> string" where
  "printed_on f out = concat (map snd (filter (\<lambda>x. fst x = f) out))"

definition text_on :: "stream \<Rightarrow> event \<Rightarrow> string" where
  "text_on f ev =
     (case ev of
        Written g t \<Rightarrow> if g = f then t else []
      | Parsed p out \<Rightarrow> printed_on f out
      | Computed out \<Rightarrow> printed_on f out
      | _ \<Rightarrow> [])"

definition stdout :: "outcome \<Rightarrow> string" where
  "stdout out = concat (map (text_on Stdout) (events (final out)))"

subsection \<open>Vocabulary of the properties\<close>

text \<open>
  What the library returns on the two files: the calldata of the key and the proof it
  parses from them, or the first failure on the way.
\<close>

definition library_calldata ::
  "('vk, 'pf, 'g) garaga \<Rightarrow> (path \<rightharpoonup> string) \<Rightarrow> path \<Rightarrow> path \<Rightarrow> exn + int list" where
  "library_calldata lib fs proof_path vk_path =
     (case load (parse_vk lib) fs vk_path of
        Inl e \<Rightarrow> Inl e
      | Inr vk \<Rightarrow>
          (case load (parse_proof lib) fs proof_path of
             Inl e \<Rightarrow> Inl e
           | Inr pf \<Rightarrow>
               (case groth16_calldata_from_vk_and_proof lib vk pf of
                  Inl m \<Rightarrow> Inl (LibraryError m)
                | Inr cd \<Rightarrow> Inr cd)))"

text \<open>
  What the library writes to the streams in a run that has passed the argument check:
  what the key's parser writes, then (when the key was parsed) what the proof's parser
  writes, then (when the proof was parsed too) what the calldata function writes.
\<close>

definition library_printed ::
  "('vk, 'pf, 'g) garaga \<Rightarrow> (path \<rightharpoonup> string) \<Rightarrow> path \<Rightarrow> path \<Rightarrow> printed" where
  "library_printed lib fs proof_path vk_path =
     vk_from_json_prints lib vk_path (fs vk_path) @
     (case load (parse_vk lib) fs vk_path of
        Inl e \<Rightarrow> []
      | Inr vk \<Rightarrow>
          proof_from_json_prints lib proof_path (fs proof_path) @
          (case load (parse_proof lib) fs proof_path of
             Inl e \<Rightarrow> []
           | Inr pf \<Rightarrow> calldata_prints lib vk pf))"

text \<open>The value of a field of a JSON object.\<close>

fun json_get :: "json \<Rightarrow> string \<Rightarrow> json option" where
  "json_get (JObject kvs) k = map_of kvs k"
| "json_get _ k = None"

text \<open>
  The JSON text that a run has produced: the content of the output file where the run
  was given one, and otherwise the line that the script printed on standard output,
  without its newline.
\<close>

definition strip_newline :: "string \<Rightarrow> string option" where
  "strip_newline t = (if t \<noteq> [] \<and> last t = CHR 0x0A then Some (butlast t) else None)"

definition json_output :: "string list \<Rightarrow> outcome \<Rightarrow> string option" where
  "json_output argv out =
     (if truthy (output_path_of argv) then files (final out) (the (output_path_of argv))
      else strip_newline (written_to Stdout (events (final out))))"

subsection \<open>A small library and a small file system, to run the script on\<close>

text \<open>
  A stand-in for the library: a key and a proof are the text of their files, which is
  also their curve identifier; the text \<open>bad\<close> does not parse; the calldata function
  fails when the two curves differ, and the calldata and the IC list have three
  elements on the curve \<open>BN254\<close> and two on any other. This library writes to standard
  output: a parser reports a file that is not there before it raises, and the calldata
  function announces itself on a key of the curve \<open>BLS12\<close>.
\<close>

definition toy_garaga :: "(string, string, nat) garaga" where
  "toy_garaga =
     \<lparr>parse_vk = (\<lambda>t. if t = ''bad'' then Inl ''not a key'' else Inr t),
      parse_proof = (\<lambda>t. if t = ''bad'' then Inl ''not a proof'' else Inr t),
      groth16_calldata_from_vk_and_proof =
        (\<lambda>vk pf. if vk = pf then (if vk = ''BN254'' then Inr [3, - 12, 0] else Inr [7, 8])
                  else Inl ''curve mismatch''),
      vk_curve_id = (\<lambda>vk. vk),
      ic = (\<lambda>vk. if vk = ''BN254'' then [1, 2, 3] else [1, 2]),
      proof_curve_id = (\<lambda>pf. pf),
      vk_from_json_prints =
        (\<lambda>p t. case t of
                 None \<Rightarrow> [(Stdout, ''The file '' @ p @ '' was not found.'' @ [CHR 0x0A])]
               | Some _ \<Rightarrow> []),
      proof_from_json_prints =
        (\<lambda>p t. case t of
                 None \<Rightarrow> [(Stdout, ''The file '' @ p @ '' was not found.'' @ [CHR 0x0A])]
               | Some _ \<Rightarrow> []),
      calldata_prints =
        (\<lambda>vk pf. if vk = ''BLS12'' then [(Stdout, ''Risc0 mode'' @ [CHR 0x0A])] else [])\<rparr>"

definition toy_files :: "path \<rightharpoonup> string" where
  "toy_files =
     [''proof.json'' \<mapsto> ''BN254'', ''vk.json'' \<mapsto> ''BN254'', ''other.json'' \<mapsto> ''BLS12'',
      ''other_proof.json'' \<mapsto> ''BLS12'', ''bad.json'' \<mapsto> ''bad'', ''out.json'' \<mapsto> ''stale'']"

definition toy_sys :: sys where
  "toy_sys = \<lparr>files = toy_files, writable = (\<lambda>p. p \<noteq> ''locked.json''), events = []\<rparr>"

section \<open>Properties\<close>

subsection \<open>Decimal strings\<close>

lemma digit_char_is_digit: "d < 10 \<Longrightarrow> is_digit (digit_char d)"
  unfolding is_digit_def digit_char_def by (rule nth_mem) simp

lemma digit_val_digit_char: "d < 10 \<Longrightarrow> digit_val (digit_char d) = d"
proof -
  assume "d < 10"
  then have "d \<in> {0, 1, 2, 3, 4, 5, 6, 7, 8, 9}" by auto
  then show ?thesis by (auto simp: digit_val_def digit_char_def)
qed

lemma str_nat_digits: "list_all is_digit (str_nat n)"
proof (induction n rule: str_nat.induct)
  case (1 n)
  show ?case
  proof (cases "n < 10")
    case True
    then show ?thesis by (subst str_nat.simps) (simp add: digit_char_is_digit)
  next
    case False
    with 1 have "list_all is_digit (str_nat (n div 10))" by simp
    moreover have "is_digit (digit_char (n mod 10))" by (simp add: digit_char_is_digit)
    ultimately show ?thesis using False by (subst str_nat.simps) simp
  qed
qed

lemma str_nat_not_Nil: "str_nat n \<noteq> []"
  by (subst str_nat.simps) simp

lemma nat_of_digits_snoc: "nat_of_digits (ds @ [c]) = 10 * nat_of_digits ds + digit_val c"
  by (simp add: nat_of_digits_def)

lemma nat_of_digits_str_nat: "nat_of_digits (str_nat n) = n"
proof (induction n rule: str_nat.induct)
  case (1 n)
  show ?case
  proof (cases "n < 10")
    case True
    then show ?thesis by (subst str_nat.simps) (simp add: nat_of_digits_def digit_val_digit_char)
  next
    case False
    with 1 have "nat_of_digits (str_nat (n div 10)) = n div 10" by simp
    then show ?thesis using False
      by (subst str_nat.simps) (simp add: nat_of_digits_snoc digit_val_digit_char)
  qed
qed

lemma is_digit_not_minus: "is_digit c \<Longrightarrow> c \<noteq> CHR ''-''"
  by (auto simp: is_digit_def)

lemma is_decimal_str_nat: "is_decimal (str_nat n)"
proof (cases "str_nat n")
  case Nil
  then show ?thesis using str_nat_not_Nil by blast
next
  case (Cons c ds)
  moreover from Cons have "is_digit c" "list_all is_digit ds"
    using str_nat_digits [of n] by simp_all
  ultimately show ?thesis by (simp add: is_decimal_def is_digit_not_minus)
qed

lemma is_decimal_str: "is_decimal (str x)"
proof (cases "x < 0")
  case True
  then show ?thesis by (simp add: str_def is_decimal_def str_nat_not_Nil str_nat_digits)
next
  case False
  then show ?thesis by (simp add: str_def is_decimal_str_nat)
qed

lemma int_of_decimal_str_nat: "int_of_decimal (str_nat n) = int n"
proof (cases "str_nat n")
  case Nil
  then show ?thesis using str_nat_not_Nil by blast
next
  case (Cons c ds)
  moreover from Cons have "is_digit c" using str_nat_digits [of n] by simp
  moreover from Cons have "nat_of_digits (c # ds) = n" using nat_of_digits_str_nat [of n] by simp
  ultimately show ?thesis by (simp add: int_of_decimal_def is_digit_not_minus)
qed

lemma int_of_decimal_str: "int_of_decimal (str x) = x"
proof (cases "x < 0")
  case True
  then show ?thesis by (simp add: str_def int_of_decimal_def nat_of_digits_str_nat)
next
  case False
  then show ?thesis by (simp add: str_def int_of_decimal_str_nat)
qed

subsection \<open>The encoder never writes a newline\<close>

lemma hex_digit_no_newline: "d < 16 \<Longrightarrow> CHR 0x0A \<noteq> hex_digit d"
proof -
  assume "d < 16"
  then have "hex_digit d \<in> set ''0123456789abcdef''"
    unfolding hex_digit_def by (intro nth_mem) simp
  then show ?thesis by auto
qed

lemma of_char_div_16: "(of_char c :: nat) div 16 < 16"
proof -
  have "(of_char c :: nat) mod 256 = of_char c" by simp
  then have "(of_char c :: nat) < 16 * 16"
    by (metis mod_less_divisor numeral_times_numeral semiring_norm(12,13) zero_less_numeral)
  then show ?thesis by (rule less_mult_imp_div_less)
qed

lemma newline_notin_escape_char: "CHR 0x0A \<notin> set (escape_char c)"
  by (simp add: escape_char_def hex_digit_no_newline of_char_div_16)

lemma newline_notin_encode: "CHR 0x0A \<notin> set (encode_basestring_ascii s)"
  by (simp add: encode_basestring_ascii_def newline_notin_escape_char)

lemma is_digit_no_newline: "is_digit c \<Longrightarrow> c \<noteq> CHR 0x0A"
  by (auto simp: is_digit_def)

lemma newline_notin_str_nat: "CHR 0x0A \<notin> set (str_nat n)"
  using str_nat_digits [of n] is_digit_no_newline by (auto simp: list_all_iff)

lemma newline_notin_str: "CHR 0x0A \<notin> set (str x)"
  by (simp add: str_def newline_notin_str_nat)

lemma set_join: "set (join sep xs) \<subseteq> set sep \<union> (\<Union>x\<in>set xs. set x)"
  by (induction sep xs rule: join.induct) auto

lemma newline_notin_join:
  assumes "CHR 0x0A \<notin> set sep" and "\<And>x. x \<in> set xs \<Longrightarrow> CHR 0x0A \<notin> set x"
  shows "CHR 0x0A \<notin> set (join sep xs)"
  using assms set_join [of sep xs] by auto

lemma newline_notin_dumps: "CHR 0x0A \<notin> set (dumps v)"
proof (induction v)
  case (JString s)
  show ?case by (simp add: newline_notin_encode)
next
  case (JInt i)
  show ?case by (simp add: newline_notin_str)
next
  case (JArray xs)
  have "CHR 0x0A \<notin> set (join '', '' (map dumps xs))"
    by (rule newline_notin_join) (use JArray in auto)
  then show ?case by simp
next
  case (JObject kvs)
  have "CHR 0x0A \<notin> set (join '', '' (map dumps_item (map (map_prod id dumps) kvs)))"
  proof (rule newline_notin_join)
    show "CHR 0x0A \<notin> set '', ''" by simp
  next
    fix x assume "x \<in> set (map dumps_item (map (map_prod id dumps) kvs))"
    then obtain k v where kv: "(k, v) \<in> set kvs" and x: "x = dumps_item (k, dumps v)"
      by auto
    from kv have "CHR 0x0A \<notin> set (dumps v)" by (rule JObject) simp
    with x show "CHR 0x0A \<notin> set x"
      using newline_notin_encode [of k] by (simp add: dumps_item_def)
  qed
  then show ?case by simp
qed

lemma json_get_result_calldata:
  "json_get (result cd) ''calldata'' = Some (JArray (map (\<lambda>x. JString (str x)) cd))"
  by (simp add: result_def)

lemma json_get_result_length:
  "json_get (result cd) ''length'' = Some (JInt (int (length cd)))"
  by (simp add: result_def)

subsection \<open>The runs of the script, case by case\<close>

lemmas io_defs = Let_def io_bind_def io_then_def raise_def emit_def py_print_def
  sys_exit_def open_w_def json_dump_def from_json_def calldata_call_def

lemma load_not_exit: "load parse fs p \<noteq> Inl (SystemExit n)"
  by (simp add: load_def split: option.splits sum.splits)

lemma run_usage:
  assumes "length argv < 3"
  shows "run lib argv w =
    \<lparr>exit_status = 1, final = w\<lparr>events := [Written Stdout (usage @ [CHR 0x0A])]\<rparr>\<rparr>"
  using assms by (simp add: run_def main_def io_defs)

lemma run_vk_fails:
  assumes "3 \<le> length argv"
    and "load (parse_vk lib) (files w) (argv ! 2) = Inl e"
  shows "run lib argv w =
    \<lparr>exit_status = 1, final = w\<lparr>events := [Parsed (argv ! 2) (vk_from_json_prints lib (argv ! 2) (files w (argv ! 2))), Traceback e]\<rparr>\<rparr>"
proof -
  from assms(2) have "\<forall>n. e \<noteq> SystemExit n" using load_not_exit by metis
  then show ?thesis using assms
    by (cases e) (simp_all add: run_def main_def io_defs)
qed

lemma run_proof_fails:
  assumes "3 \<le> length argv"
    and "load (parse_vk lib) (files w) (argv ! 2) = Inr vk"
    and "load (parse_proof lib) (files w) (argv ! 1) = Inl e"
  shows "run lib argv w =
    \<lparr>exit_status = 1,
     final = w\<lparr>events := [Parsed (argv ! 2) (vk_from_json_prints lib (argv ! 2) (files w (argv ! 2))), Written Stderr (vk_loaded lib vk @ [CHR 0x0A]),
                           Parsed (argv ! 1) (proof_from_json_prints lib (argv ! 1) (files w (argv ! 1))),
                           Traceback e]\<rparr>\<rparr>"
proof -
  from assms(3) have "\<forall>n. e \<noteq> SystemExit n" using load_not_exit by metis
  then show ?thesis using assms
    by (cases e) (simp_all add: run_def main_def io_defs)
qed

lemma run_calldata_fails:
  assumes "3 \<le> length argv"
    and "load (parse_vk lib) (files w) (argv ! 2) = Inr vk"
    and "load (parse_proof lib) (files w) (argv ! 1) = Inr pf"
    and "groth16_calldata_from_vk_and_proof lib vk pf = Inl m"
  shows "run lib argv w =
    \<lparr>exit_status = 1,
     final = w\<lparr>events := [Parsed (argv ! 2) (vk_from_json_prints lib (argv ! 2) (files w (argv ! 2))), Written Stderr (vk_loaded lib vk @ [CHR 0x0A]),
                           Parsed (argv ! 1) (proof_from_json_prints lib (argv ! 1) (files w (argv ! 1))),
                           Written Stderr (proof_loaded lib pf @ [CHR 0x0A]),
                           Computed (calldata_prints lib vk pf), Traceback (LibraryError m)]\<rparr>\<rparr>"
  using assms by (simp add: run_def main_def io_defs)

lemma run_open_fails:
  assumes "3 \<le> length argv"
    and "load (parse_vk lib) (files w) (argv ! 2) = Inr vk"
    and "load (parse_proof lib) (files w) (argv ! 1) = Inr pf"
    and "groth16_calldata_from_vk_and_proof lib vk pf = Inr cd"
    and "output_path_of argv = Some p" and "p \<noteq> []" and "\<not> writable w p"
  shows "run lib argv w =
    \<lparr>exit_status = 1,
     final = w\<lparr>events := [Parsed (argv ! 2) (vk_from_json_prints lib (argv ! 2) (files w (argv ! 2))), Written Stderr (vk_loaded lib vk @ [CHR 0x0A]),
                           Parsed (argv ! 1) (proof_from_json_prints lib (argv ! 1) (files w (argv ! 1))),
                           Written Stderr (proof_loaded lib pf @ [CHR 0x0A]),
                           Computed (calldata_prints lib vk pf), Written Stderr (calldata_generated cd @ [CHR 0x0A]),
                           Traceback (OSError p)]\<rparr>\<rparr>"
  using assms by (simp add: run_def main_def io_defs truthy_def)

lemma run_to_file:
  assumes "3 \<le> length argv"
    and "load (parse_vk lib) (files w) (argv ! 2) = Inr vk"
    and "load (parse_proof lib) (files w) (argv ! 1) = Inr pf"
    and "groth16_calldata_from_vk_and_proof lib vk pf = Inr cd"
    and "output_path_of argv = Some p" and "p \<noteq> []" and "writable w p"
  shows "run lib argv w =
    \<lparr>exit_status = 0,
     final = w\<lparr>files := (files w)(p \<mapsto> dumps (result cd)),
               events := [Parsed (argv ! 2) (vk_from_json_prints lib (argv ! 2) (files w (argv ! 2))), Written Stderr (vk_loaded lib vk @ [CHR 0x0A]),
                           Parsed (argv ! 1) (proof_from_json_prints lib (argv ! 1) (files w (argv ! 1))),
                           Written Stderr (proof_loaded lib pf @ [CHR 0x0A]),
                           Computed (calldata_prints lib vk pf), Written Stderr (calldata_generated cd @ [CHR 0x0A]),
                           Opened p, Dumped p (dumps (result cd)),
                           Written Stderr (calldata_written p @ [CHR 0x0A])]\<rparr>\<rparr>"
  using assms by (simp add: run_def main_def io_defs truthy_def)

lemma run_to_stdout:
  assumes "3 \<le> length argv"
    and "load (parse_vk lib) (files w) (argv ! 2) = Inr vk"
    and "load (parse_proof lib) (files w) (argv ! 1) = Inr pf"
    and "groth16_calldata_from_vk_and_proof lib vk pf = Inr cd"
    and "\<not> truthy (output_path_of argv)"
  shows "run lib argv w =
    \<lparr>exit_status = 0,
     final = w\<lparr>events := [Parsed (argv ! 2) (vk_from_json_prints lib (argv ! 2) (files w (argv ! 2))), Written Stderr (vk_loaded lib vk @ [CHR 0x0A]),
                           Parsed (argv ! 1) (proof_from_json_prints lib (argv ! 1) (files w (argv ! 1))),
                           Written Stderr (proof_loaded lib pf @ [CHR 0x0A]),
                           Computed (calldata_prints lib vk pf), Written Stderr (calldata_generated cd @ [CHR 0x0A]),
                           Written Stdout (dumps (result cd) @ [CHR 0x0A])]\<rparr>\<rparr>"
  using assms by (simp add: run_def main_def io_defs)

lemma library_calldata_Inr:
  "library_calldata lib fs pp vp = Inr cd \<longleftrightarrow>
     (\<exists>vk pf. load (parse_vk lib) fs vp = Inr vk \<and> load (parse_proof lib) fs pp = Inr pf
        \<and> groth16_calldata_from_vk_and_proof lib vk pf = Inr cd)"
  by (auto simp: library_calldata_def split: sum.splits)

lemma library_calldata_Inl:
  "library_calldata lib fs pp vp = Inl e \<longleftrightarrow>
     load (parse_vk lib) fs vp = Inl e
     \<or> (\<exists>vk. load (parse_vk lib) fs vp = Inr vk \<and> load (parse_proof lib) fs pp = Inl e)
     \<or> (\<exists>vk pf m. load (parse_vk lib) fs vp = Inr vk \<and> load (parse_proof lib) fs pp = Inr pf
          \<and> groth16_calldata_from_vk_and_proof lib vk pf = Inl m \<and> e = LibraryError m)"
  by (auto simp: library_calldata_def split: sum.splits)

lemma truthy_Some: "truthy op \<longleftrightarrow> (\<exists>p. op = Some p \<and> p \<noteq> [])"
  by (cases op) (simp_all add: truthy_def)

lemma run_cases [case_names usage vk_fails proof_fails calldata_fails open_fails to_file to_stdout]:
  fixes lib :: "('vk, 'pf, 'g) garaga"
  obtains
    "length argv < 3"
  | e where "3 \<le> length argv" "load (parse_vk lib) (files w) (argv ! 2) = Inl e"
  | vk e where "3 \<le> length argv" "load (parse_vk lib) (files w) (argv ! 2) = Inr vk"
      "load (parse_proof lib) (files w) (argv ! 1) = Inl e"
  | vk pf m where "3 \<le> length argv" "load (parse_vk lib) (files w) (argv ! 2) = Inr vk"
      "load (parse_proof lib) (files w) (argv ! 1) = Inr pf"
      "groth16_calldata_from_vk_and_proof lib vk pf = Inl m"
  | vk pf cd p where "3 \<le> length argv" "load (parse_vk lib) (files w) (argv ! 2) = Inr vk"
      "load (parse_proof lib) (files w) (argv ! 1) = Inr pf"
      "groth16_calldata_from_vk_and_proof lib vk pf = Inr cd"
      "output_path_of argv = Some p" "p \<noteq> []" "\<not> writable w p"
  | vk pf cd p where "3 \<le> length argv" "load (parse_vk lib) (files w) (argv ! 2) = Inr vk"
      "load (parse_proof lib) (files w) (argv ! 1) = Inr pf"
      "groth16_calldata_from_vk_and_proof lib vk pf = Inr cd"
      "output_path_of argv = Some p" "p \<noteq> []" "writable w p"
  | vk pf cd where "3 \<le> length argv" "load (parse_vk lib) (files w) (argv ! 2) = Inr vk"
      "load (parse_proof lib) (files w) (argv ! 1) = Inr pf"
      "groth16_calldata_from_vk_and_proof lib vk pf = Inr cd"
      "\<not> truthy (output_path_of argv)"
proof (cases "length argv < 3")
  case True
  then show ?thesis by (rule that(1))
next
  case False
  then have len: "3 \<le> length argv" by simp
  show ?thesis
  proof (cases "load (parse_vk lib) (files w) (argv ! 2)")
    case (Inl e)
    with len show ?thesis by (rule that(2))
  next
    case vk: (Inr vk)
    show ?thesis
    proof (cases "load (parse_proof lib) (files w) (argv ! 1)")
      case (Inl e)
      with len vk show ?thesis by (rule that(3))
    next
      case pf: (Inr pf)
      show ?thesis
      proof (cases "groth16_calldata_from_vk_and_proof lib vk pf")
        case (Inl m)
        with len vk pf show ?thesis by (rule that(4))
      next
        case cd: (Inr cd)
        show ?thesis
        proof (cases "truthy (output_path_of argv)")
          case False
          with len vk pf cd show ?thesis by (rule that(7))
        next
          case True
          then obtain p where p: "output_path_of argv = Some p" "p \<noteq> []"
            by (auto simp: truthy_Some)
          show ?thesis
          proof (cases "writable w p")
            case True
            with len vk pf cd p show ?thesis by (rule that(6))
          next
            case False
            with len vk pf cd p show ?thesis by (rule that(5))
          qed
        qed
      qed
    qed
  qed
qed

lemma run_success_cases [consumes 1, case_names to_file to_stdout]:
  fixes lib :: "('vk, 'pf, 'g) garaga"
  assumes ok: "exit_status (run lib argv w) = 0"
  obtains
    vk pf cd p where "3 \<le> length argv" "load (parse_vk lib) (files w) (argv ! 2) = Inr vk"
      "load (parse_proof lib) (files w) (argv ! 1) = Inr pf"
      "groth16_calldata_from_vk_and_proof lib vk pf = Inr cd"
      "output_path_of argv = Some p" "p \<noteq> []" "writable w p"
  | vk pf cd where "3 \<le> length argv" "load (parse_vk lib) (files w) (argv ! 2) = Inr vk"
      "load (parse_proof lib) (files w) (argv ! 1) = Inr pf"
      "groth16_calldata_from_vk_and_proof lib vk pf = Inr cd"
      "\<not> truthy (output_path_of argv)"
proof (cases rule: run_cases [where lib = lib and argv = argv and w = w])
  case usage
  then show ?thesis using ok by (simp add: run_usage)
next
  case (vk_fails e)
  then show ?thesis using ok by (simp add: run_vk_fails)
next
  case (proof_fails vk e)
  then show ?thesis using ok by (simp add: run_proof_fails)
next
  case (calldata_fails vk pf m)
  then show ?thesis using ok by (simp add: run_calldata_fails)
next
  case (open_fails vk pf cd p)
  then show ?thesis using ok by (simp add: run_open_fails)
next
  case (to_file vk pf cd p)
  then show ?thesis by (rule that(1))
next
  case (to_stdout vk pf cd)
  then show ?thesis by (rule that(2))
qed


lemma printed_on_append: "printed_on f (a @ b) = printed_on f a @ printed_on f b"
  by (simp add: printed_on_def)

lemma stdout_run:
  fixes lib :: "('vk, 'pf, 'g) garaga"
  assumes "3 \<le> length argv"
  shows "stdout (run lib argv w) =
      printed_on Stdout (library_printed lib (files w) (argv ! 1) (argv ! 2)) @
      written_to Stdout (events (final (run lib argv w)))"
proof (cases rule: run_cases [where lib = lib and argv = argv and w = w])
  case usage
  with assms show ?thesis by simp
next
  case (vk_fails e)
  then show ?thesis
    by (simp add: run_vk_fails stdout_def text_on_def written_to_def library_printed_def)
next
  case (proof_fails vk e)
  then show ?thesis
    by (simp add: run_proof_fails stdout_def text_on_def written_to_def library_printed_def
        printed_on_append)
next
  case (calldata_fails vk pf m)
  then show ?thesis
    by (simp add: run_calldata_fails stdout_def text_on_def written_to_def library_printed_def
        printed_on_append)
next
  case (open_fails vk pf cd p)
  then show ?thesis
    by (simp add: run_open_fails stdout_def text_on_def written_to_def library_printed_def
        printed_on_append)
next
  case (to_file vk pf cd p)
  then show ?thesis
    by (simp add: run_to_file stdout_def text_on_def written_to_def library_printed_def
        printed_on_append)
next
  case (to_stdout vk pf cd)
  then show ?thesis
    by (simp add: run_to_stdout stdout_def text_on_def written_to_def library_printed_def
        printed_on_append)
qed

subsection \<open>Too few arguments\<close>

text \<open>
  Claim C2. With fewer than two positional arguments (\<open>sys.argv\<close> has fewer than three
  entries, the script's name being the first), the process prints the usage line on
  standard output and ends with status 1. Nothing else happens: the usage line is the
  only event of the run, so no file is handed to the library, none is opened, and the
  files are what they were.
\<close>

theorem usage_exit_before_any_file_access:
  assumes "length argv < 3"
  shows "exit_status (run lib argv w) = 1
       \<and> stdout (run lib argv w) = usage @ [CHR 0x0A]
       \<and> events (final (run lib argv w)) = [Written Stdout (usage @ [CHR 0x0A])]
       \<and> files (final (run lib argv w)) = files w"
  using assms by (simp add: run_usage stdout_def text_on_def)

theorem usage_exit_witness:
  "length [''generate_garaga_calldata.py'', ''missing.json''] < 3
   \<and> exit_status (run toy_garaga [''generate_garaga_calldata.py'', ''missing.json''] toy_sys) = 1
   \<and> stdout (run toy_garaga [''generate_garaga_calldata.py'', ''missing.json''] toy_sys) =
       ''Usage: python3 generate_garaga_calldata.py <proof_json> <vk_json> [output_json]'' @ [CHR 0x0A]
   \<and> files (final (run toy_garaga [''generate_garaga_calldata.py'', ''missing.json''] toy_sys))
       ''out.json'' = Some ''stale''"
  using usage_exit_before_any_file_access
    [of "[''generate_garaga_calldata.py'', ''missing.json'']" toy_garaga toy_sys]
  by (simp add: usage_def toy_sys_def toy_files_def)

subsection \<open>The script on the small library\<close>

lemma dumps_result_example:
  \<open>dumps (result [3, - 12, 0]) = ''{"calldata": ["3", "-12", "0"], "length": 3}''\<close>
  by code_simp

lemma toy_load_vk: "load (parse_vk toy_garaga) toy_files ''vk.json'' = Inr ''BN254''"
  by (simp add: load_def toy_garaga_def toy_files_def)

lemma toy_load_proof: "load (parse_proof toy_garaga) toy_files ''proof.json'' = Inr ''BN254''"
  by (simp add: load_def toy_garaga_def toy_files_def)

lemma toy_calldata:
  "groth16_calldata_from_vk_and_proof toy_garaga ''BN254'' ''BN254'' = Inr [3, - 12, 0]"
  by (simp add: toy_garaga_def)

lemma toy_library_calldata:
  "library_calldata toy_garaga toy_files ''proof.json'' ''vk.json'' = Inr [3, - 12, 0]"
  by (simp add: library_calldata_def toy_load_vk toy_load_proof toy_calldata)

lemma toy_prints:
  "vk_from_json_prints toy_garaga p (Some t) = []"
  "proof_from_json_prints toy_garaga p (Some t) = []"
  "vk_from_json_prints toy_garaga p None = [(Stdout, ''The file '' @ p @ '' was not found.'' @ [CHR 0x0A])]"
  "proof_from_json_prints toy_garaga p None = [(Stdout, ''The file '' @ p @ '' was not found.'' @ [CHR 0x0A])]"
  "calldata_prints toy_garaga ''BN254'' pf = []"
  "calldata_prints toy_garaga ''BLS12'' pf = [(Stdout, ''Risc0 mode'' @ [CHR 0x0A])]"
  "toy_files ''vk.json'' = Some ''BN254''"
  "toy_files ''proof.json'' = Some ''BN254''"
  "toy_files ''other.json'' = Some ''BLS12''"
  "toy_files ''other_proof.json'' = Some ''BLS12''"
  "toy_files ''bad.json'' = Some ''bad''"
  "toy_files ''none.json'' = None"
  by (simp_all add: toy_garaga_def toy_files_def)

lemma strip_newline_snoc: "strip_newline (t @ [CHR 0x0A]) = Some t"
  by (simp add: strip_newline_def)

lemma toy_run_stdout:
  "run toy_garaga [''generate_garaga_calldata.py'', ''proof.json'', ''vk.json''] toy_sys =
     \<lparr>exit_status = 0,
      final = toy_sys\<lparr>events :=
        [Parsed ''vk.json'' [], Written Stderr (vk_loaded toy_garaga ''BN254'' @ [CHR 0x0A]),
         Parsed ''proof.json'' [], Written Stderr (proof_loaded toy_garaga ''BN254'' @ [CHR 0x0A]),
         Computed [], Written Stderr (calldata_generated [3, - 12, 0] @ [CHR 0x0A]),
         Written Stdout (dumps (result [3, - 12, 0]) @ [CHR 0x0A])]\<rparr>\<rparr>"
  using run_to_stdout [of "[''generate_garaga_calldata.py'', ''proof.json'', ''vk.json'']"
      toy_garaga toy_sys "''BN254''" "''BN254''" "[3, - 12, 0]"]
  by (simp add: toy_load_vk toy_load_proof toy_calldata toy_sys_def output_path_of_def truthy_def
      toy_prints)

lemma toy_run_file:
  "run toy_garaga [''generate_garaga_calldata.py'', ''proof.json'', ''vk.json'', ''out.json''] toy_sys =
     \<lparr>exit_status = 0,
      final = toy_sys\<lparr>files := toy_files(''out.json'' \<mapsto> dumps (result [3, - 12, 0])),
        events :=
        [Parsed ''vk.json'' [], Written Stderr (vk_loaded toy_garaga ''BN254'' @ [CHR 0x0A]),
         Parsed ''proof.json'' [], Written Stderr (proof_loaded toy_garaga ''BN254'' @ [CHR 0x0A]),
         Computed [], Written Stderr (calldata_generated [3, - 12, 0] @ [CHR 0x0A]),
         Opened ''out.json'', Dumped ''out.json'' (dumps (result [3, - 12, 0])),
         Written Stderr (calldata_written ''out.json'' @ [CHR 0x0A])]\<rparr>\<rparr>"
  using run_to_file [of "[''generate_garaga_calldata.py'', ''proof.json'', ''vk.json'', ''out.json'']"
      toy_garaga toy_sys "''BN254''" "''BN254''" "[3, - 12, 0]" "''out.json''"]
  by (simp add: toy_load_vk toy_load_proof toy_calldata toy_sys_def output_path_of_def toy_prints)

subsection \<open>The result object\<close>

text \<open>
  Claim C1. A run that ends with status 0 has produced, in the output file or on
  standard output, the encoding of the object \<open>result cd\<close>, where \<open>cd\<close> is the list
  of integers that the library returned on the two files. The object's \<open>calldata\<close>
  field is the list of the \<open>str\<close> of the elements of \<open>cd\<close>, in order; its \<open>length\<close>
  field is the number of items of that list; and each of these strings is a non-empty
  run of decimal digits after an optional minus sign, which reads back as the element.
\<close>

theorem result_length_and_decimal_strings:
  assumes "exit_status (run lib argv w) = 0"
  shows "\<exists>cd. library_calldata lib (files w) (argv ! 1) (argv ! 2) = Inr cd
      \<and> json_output argv (run lib argv w) = Some (dumps (result cd))
      \<and> json_get (result cd) ''calldata'' = Some (JArray (map (\<lambda>x. JString (str x)) cd))
      \<and> json_get (result cd) ''length'' =
          Some (JInt (int (length (map (\<lambda>x. JString (str x)) cd))))
      \<and> list_all (\<lambda>x. is_decimal (str x) \<and> int_of_decimal (str x) = x) cd"
  using assms
proof (cases rule: run_success_cases)
  case (to_file vk pf cd p)
  then have "library_calldata lib (files w) (argv ! 1) (argv ! 2) = Inr cd"
    by (auto simp: library_calldata_Inr)
  moreover from to_file have "json_output argv (run lib argv w) = Some (dumps (result cd))"
    by (simp add: run_to_file json_output_def truthy_def)
  ultimately show ?thesis
    by (intro exI [of _ cd])
       (simp add: json_get_result_calldata json_get_result_length is_decimal_str
          int_of_decimal_str list_all_iff)
next
  case (to_stdout vk pf cd)
  then have "library_calldata lib (files w) (argv ! 1) (argv ! 2) = Inr cd"
    by (auto simp: library_calldata_Inr)
  moreover from to_stdout have "json_output argv (run lib argv w) = Some (dumps (result cd))"
    by (simp add: run_to_stdout json_output_def written_to_def strip_newline_snoc)
  ultimately show ?thesis
    by (intro exI [of _ cd])
       (simp add: json_get_result_calldata json_get_result_length is_decimal_str
          int_of_decimal_str list_all_iff)
qed

theorem result_length_and_decimal_strings_witness:
  \<open>exit_status
     (run toy_garaga [''generate_garaga_calldata.py'', ''proof.json'', ''vk.json'', ''out.json'']
        toy_sys) = 0
   \<and> json_output [''generate_garaga_calldata.py'', ''proof.json'', ''vk.json'', ''out.json'']
       (run toy_garaga [''generate_garaga_calldata.py'', ''proof.json'', ''vk.json'', ''out.json'']
          toy_sys) = Some ''{"calldata": ["3", "-12", "0"], "length": 3}''
   \<and> list_all (\<lambda>x. is_decimal (str x) \<and> int_of_decimal (str x) = x) [3, - 12, 0]\<close>
proof -
  let ?argv = "[''generate_garaga_calldata.py'', ''proof.json'', ''vk.json'', ''out.json'']"
  have ok: "exit_status (run toy_garaga ?argv toy_sys) = 0"
    by (simp add: toy_run_file)
  have fs: "files toy_sys = toy_files"
    by (simp add: toy_sys_def)
  from result_length_and_decimal_strings [OF ok] ok show ?thesis
    by (simp add: fs toy_library_calldata dumps_result_example)
qed

subsection \<open>What reaches standard output\<close>

lemma stdout_writes:
  fixes lib :: "('vk, 'pf, 'g) garaga"
  assumes "Written Stdout t \<in> set (events (final (run lib argv w)))"
  shows "t = usage @ [CHR 0x0A] \<or> (\<exists>cd. t = dumps (result cd) @ [CHR 0x0A])"
proof (cases rule: run_cases [where lib = lib and argv = argv and w = w])
  case usage
  then show ?thesis using assms by (simp add: run_usage)
next
  case (vk_fails e)
  then show ?thesis using assms by (simp add: run_vk_fails)
next
  case (proof_fails vk e)
  then show ?thesis using assms by (simp add: run_proof_fails)
next
  case (calldata_fails vk pf m)
  then show ?thesis using assms by (simp add: run_calldata_fails)
next
  case (open_fails vk pf cd p)
  then show ?thesis using assms by (simp add: run_open_fails)
next
  case (to_file vk pf cd p)
  then show ?thesis using assms by (simp add: run_to_file)
next
  case (to_stdout vk pf cd)
  then show ?thesis using assms by (auto simp: run_to_stdout)
qed

lemma script_stdout_cases:
  fixes lib :: "('vk, 'pf, 'g) garaga"
  shows "written_to Stdout (events (final (run lib argv w))) = []
       \<or> written_to Stdout (events (final (run lib argv w))) = usage @ [CHR 0x0A]
       \<or> (\<exists>cd. written_to Stdout (events (final (run lib argv w))) =
                 dumps (result cd) @ [CHR 0x0A])"
proof (cases rule: run_cases [where lib = lib and argv = argv and w = w])
  case usage
  then show ?thesis by (simp add: run_usage written_to_def)
next
  case (vk_fails e)
  then show ?thesis by (simp add: run_vk_fails written_to_def)
next
  case (proof_fails vk e)
  then show ?thesis by (simp add: run_proof_fails written_to_def)
next
  case (calldata_fails vk pf m)
  then show ?thesis by (simp add: run_calldata_fails written_to_def)
next
  case (open_fails vk pf cd p)
  then show ?thesis by (simp add: run_open_fails written_to_def)
next
  case (to_file vk pf cd p)
  then show ?thesis by (simp add: run_to_file written_to_def)
next
  case (to_stdout vk pf cd)
  then show ?thesis by (auto simp: run_to_stdout written_to_def)
qed

lemma stdout_write_first_char:
  fixes lib :: "('vk, 'pf, 'g) garaga"
  assumes "Written Stdout t \<in> set (events (final (run lib argv w)))"
  shows "hd t = CHR ''U'' \<or> hd t = CHR ''{''"
proof -
  from stdout_writes [OF assms]
  consider "t = usage @ [CHR 0x0A]" | cd where "t = dumps (result cd) @ [CHR 0x0A]" by blast
  then show ?thesis
  proof cases
    case 1
    then show ?thesis by (simp add: usage_def)
  next
    case (2 cd)
    then show ?thesis by (simp add: result_def)
  qed
qed

lemma not_on_stdout:
  fixes lib :: "('vk, 'pf, 'g) garaga"
  assumes "hd t \<noteq> CHR ''U''" and "hd t \<noteq> CHR ''{''"
  shows "Written Stdout t \<notin> set (events (final (run lib argv w)))"
  using assms stdout_write_first_char [of t lib argv w] by blast

lemma truthy_iff: "truthy (output_path_of argv) \<longleftrightarrow> 3 < length argv \<and> argv ! 3 \<noteq> []"
  by (simp add: truthy_def output_path_of_def)

lemma dumps_result_example2:
  \<open>dumps (result [7, 8]) = ''{"calldata": ["7", "8"], "length": 2}''\<close>
  by code_simp

lemma toy_run_other_stdout:
  "run toy_garaga [''generate_garaga_calldata.py'', ''other_proof.json'', ''other.json''] toy_sys =
     \<lparr>exit_status = 0,
      final = toy_sys\<lparr>events :=
        [Parsed ''other.json'' [], Written Stderr (vk_loaded toy_garaga ''BLS12'' @ [CHR 0x0A]),
         Parsed ''other_proof.json'' [],
         Written Stderr (proof_loaded toy_garaga ''BLS12'' @ [CHR 0x0A]),
         Computed [(Stdout, ''Risc0 mode'' @ [CHR 0x0A])],
         Written Stderr (calldata_generated [7, 8] @ [CHR 0x0A]),
         Written Stdout (dumps (result [7, 8]) @ [CHR 0x0A])]\<rparr>\<rparr>"
proof -
  let ?argv = "[''generate_garaga_calldata.py'', ''other_proof.json'', ''other.json'']"
  have vk: "load (parse_vk toy_garaga) (files toy_sys) (?argv ! 2) = Inr ''BLS12''"
    and pf: "load (parse_proof toy_garaga) (files toy_sys) (?argv ! 1) = Inr ''BLS12''"
    by (simp_all add: load_def toy_sys_def toy_files_def toy_garaga_def)
  have cd: "groth16_calldata_from_vk_and_proof toy_garaga ''BLS12'' ''BLS12'' = Inr [7, 8]"
    by (simp add: toy_garaga_def)
  have no: "\<not> truthy (output_path_of ?argv)"
    by (simp add: truthy_iff)
  show ?thesis
    using run_to_stdout [OF _ vk pf cd no] by (simp add: toy_sys_def toy_prints)
qed

lemma toy_run_empty_path:
  "run toy_garaga [''generate_garaga_calldata.py'', ''proof.json'', ''vk.json'', []] toy_sys =
     run toy_garaga [''generate_garaga_calldata.py'', ''proof.json'', ''vk.json''] toy_sys"
  by (simp add: run_def main_def output_path_of_def truthy_def Let_def)

lemma toy_library:
  "library_calldata toy_garaga (files toy_sys) ''proof.json'' ''vk.json'' = Inr [3, - 12, 0]"
  "library_calldata toy_garaga (files toy_sys) ''other_proof.json'' ''other.json'' = Inr [7, 8]"
  "library_calldata toy_garaga (files toy_sys) ''proof.json'' ''none.json'' =
     Inl (FileNotFoundError ''none.json'')"
  "library_calldata toy_garaga (files toy_sys) ''proof.json'' ''bad.json'' =
     Inl (LibraryError ''not a key'')"
  "library_printed toy_garaga (files toy_sys) ''proof.json'' ''vk.json'' = []"
  "library_printed toy_garaga (files toy_sys) ''other_proof.json'' ''other.json'' =
     [(Stdout, ''Risc0 mode'' @ [CHR 0x0A])]"
  "library_printed toy_garaga (files toy_sys) ''proof.json'' ''none.json'' =
     [(Stdout, ''The file none.json was not found.'' @ [CHR 0x0A])]"
  "library_printed toy_garaga (files toy_sys) ''proof.json'' ''bad.json'' = []"
  by (simp_all add: library_calldata_def library_printed_def load_def toy_sys_def toy_files_def
      toy_garaga_def)

subsection \<open>Where the result goes\<close>

text \<open>
  Claim C3, as amended. In a run that ends with status 0, with \<open>cd\<close> the calldata the
  library returned: when a third positional argument is given and is not the empty
  string, the file at that path holds the encoding of \<open>result cd\<close>, which was written
  to it, the line \<open>Calldata written to\<close> with the path is the last thing the run
  does and goes to the error stream, and the script writes nothing to standard output
  (what is there is what the library wrote); otherwise, also when the third argument is
  the empty string, the last thing the run does is to print the encoding and a newline
  on standard output, after whatever the library wrote there, the encoding itself has
  no newline in it (it is one line), and no file has changed.
\<close>

theorem result_goes_to_file_or_stdout:
  assumes "exit_status (run lib argv w) = 0"
  shows "\<exists>cd. library_calldata lib (files w) (argv ! 1) (argv ! 2) = Inr cd
      \<and> (if 3 < length argv \<and> argv ! 3 \<noteq> [] then
            files (final (run lib argv w)) (argv ! 3) = Some (dumps (result cd))
          \<and> Dumped (argv ! 3) (dumps (result cd)) \<in> set (events (final (run lib argv w)))
          \<and> last (events (final (run lib argv w))) =
              Written Stderr (''Calldata written to '' @ argv ! 3 @ [CHR 0x0A])
          \<and> written_to Stdout (events (final (run lib argv w))) = []
          \<and> stdout (run lib argv w) =
              printed_on Stdout (library_printed lib (files w) (argv ! 1) (argv ! 2))
          else
            last (events (final (run lib argv w))) =
              Written Stdout (dumps (result cd) @ [CHR 0x0A])
          \<and> stdout (run lib argv w) =
              printed_on Stdout (library_printed lib (files w) (argv ! 1) (argv ! 2)) @
              dumps (result cd) @ [CHR 0x0A]
          \<and> CHR 0x0A \<notin> set (dumps (result cd))
          \<and> files (final (run lib argv w)) = files w)"
  using assms
proof (cases rule: run_success_cases)
  case (to_file vk pf cd p)
  then have lc: "library_calldata lib (files w) (argv ! 1) (argv ! 2) = Inr cd"
    by (auto simp: library_calldata_Inr)
  from to_file have p: "3 < length argv \<and> argv ! 3 \<noteq> []" "argv ! 3 = p"
    by (auto simp: output_path_of_def split: if_splits)
  have so: "stdout (run lib argv w) =
      printed_on Stdout (library_printed lib (files w) (argv ! 1) (argv ! 2)) @
      written_to Stdout (events (final (run lib argv w)))"
    using to_file(1) by (rule stdout_run)
  show ?thesis
    using lc p so run_to_file [OF to_file]
    by (intro exI [of _ cd]) (simp add: written_to_def calldata_written_def)
next
  case (to_stdout vk pf cd)
  then have lc: "library_calldata lib (files w) (argv ! 1) (argv ! 2) = Inr cd"
    by (auto simp: library_calldata_Inr)
  from to_stdout(5) have no: "\<not> (3 < length argv \<and> argv ! 3 \<noteq> [])"
    by (simp add: truthy_iff)
  have so: "stdout (run lib argv w) =
      printed_on Stdout (library_printed lib (files w) (argv ! 1) (argv ! 2)) @
      written_to Stdout (events (final (run lib argv w)))"
    using to_stdout(1) by (rule stdout_run)
  show ?thesis
    using lc no so run_to_stdout [OF to_stdout]
    by (intro exI [of _ cd]) (simp add: written_to_def newline_notin_dumps)
qed

theorem result_goes_to_file_or_stdout_witness:
  \<open>exit_status
     (run toy_garaga [''generate_garaga_calldata.py'', ''proof.json'', ''vk.json'', ''out.json'']
        toy_sys) = 0
   \<and> files (final
       (run toy_garaga [''generate_garaga_calldata.py'', ''proof.json'', ''vk.json'', ''out.json'']
          toy_sys)) ''out.json'' = Some ''{"calldata": ["3", "-12", "0"], "length": 3}''
   \<and> last (events (final
       (run toy_garaga [''generate_garaga_calldata.py'', ''proof.json'', ''vk.json'', ''out.json'']
          toy_sys))) = Written Stderr (''Calldata written to out.json'' @ [CHR 0x0A])
   \<and> stdout
       (run toy_garaga [''generate_garaga_calldata.py'', ''proof.json'', ''vk.json'', ''out.json'']
          toy_sys) = []
   \<and> exit_status
       (run toy_garaga [''generate_garaga_calldata.py'', ''other_proof.json'', ''other.json'']
          toy_sys) = 0
   \<and> stdout
       (run toy_garaga [''generate_garaga_calldata.py'', ''other_proof.json'', ''other.json'']
          toy_sys) =
       ''Risc0 mode'' @ [CHR 0x0A] @ ''{"calldata": ["7", "8"], "length": 2}'' @ [CHR 0x0A]\<close>
proof -
  let ?file = "[''generate_garaga_calldata.py'', ''proof.json'', ''vk.json'', ''out.json'']"
  let ?pipe = "[''generate_garaga_calldata.py'', ''other_proof.json'', ''other.json'']"
  have ok1: "exit_status (run toy_garaga ?file toy_sys) = 0"
    by (simp add: toy_run_file)
  have ok2: "exit_status (run toy_garaga ?pipe toy_sys) = 0"
    by (simp add: toy_run_other_stdout)
  from result_goes_to_file_or_stdout [OF ok1] result_goes_to_file_or_stdout [OF ok2] ok1 ok2
  show ?thesis
    by (simp add: toy_library dumps_result_example dumps_result_example2 printed_on_def)
qed

theorem empty_third_argument_counterexample:
  \<open>3 < length [''generate_garaga_calldata.py'', ''proof.json'', ''vk.json'', []]
   \<and> output_path_of [''generate_garaga_calldata.py'', ''proof.json'', ''vk.json'', []] = Some []
   \<and> exit_status
       (run toy_garaga [''generate_garaga_calldata.py'', ''proof.json'', ''vk.json'', []] toy_sys) = 0
   \<and> files (final
       (run toy_garaga [''generate_garaga_calldata.py'', ''proof.json'', ''vk.json'', []] toy_sys))
       [] = None
   \<and> Opened [] \<notin> set (events (final
       (run toy_garaga [''generate_garaga_calldata.py'', ''proof.json'', ''vk.json'', []] toy_sys)))
   \<and> Written Stderr (''Calldata written to '' @ [] @ [CHR 0x0A]) \<notin> set (events (final
       (run toy_garaga [''generate_garaga_calldata.py'', ''proof.json'', ''vk.json'', []] toy_sys)))
   \<and> stdout
       (run toy_garaga [''generate_garaga_calldata.py'', ''proof.json'', ''vk.json'', []] toy_sys) =
       ''{"calldata": ["3", "-12", "0"], "length": 3}'' @ [CHR 0x0A]\<close>
  unfolding toy_run_empty_path toy_run_stdout
  by (simp add: output_path_of_def toy_sys_def toy_files_def stdout_def text_on_def
      printed_on_def dumps_result_example vk_loaded_def proof_loaded_def calldata_generated_def)

subsection \<open>Failures of the library\<close>

text \<open>
  Claim C4, as amended. In an invocation that passes the argument check and in which the
  library fails (parsing the verifying key, parsing the proof, or computing the
  calldata; a missing file is a failure of the parse), the process ends with status 1,
  the trace of the failure is the last thing it does, the files are what they were and
  none has been opened for writing or written, and the script itself writes nothing to
  standard output, so no JSON is there: standard output holds exactly what the library
  wrote to it before it raised, and is empty when the library wrote nothing.
\<close>

theorem library_failure_leaves_no_output:
  assumes "3 \<le> length argv"
    and "library_calldata lib (files w) (argv ! 1) (argv ! 2) = Inl e"
  shows "exit_status (run lib argv w) = 1
       \<and> exit_status (run lib argv w) \<noteq> 0
       \<and> last (events (final (run lib argv w))) = Traceback e
       \<and> files (final (run lib argv w)) = files w
       \<and> Opened p \<notin> set (events (final (run lib argv w)))
       \<and> Dumped p t \<notin> set (events (final (run lib argv w)))
       \<and> Written Stdout t \<notin> set (events (final (run lib argv w)))
       \<and> stdout (run lib argv w) =
           printed_on Stdout (library_printed lib (files w) (argv ! 1) (argv ! 2))"
proof -
  have so: "stdout (run lib argv w) =
      printed_on Stdout (library_printed lib (files w) (argv ! 1) (argv ! 2)) @
      written_to Stdout (events (final (run lib argv w)))"
    using assms(1) by (rule stdout_run)
  from assms(2) consider
      "load (parse_vk lib) (files w) (argv ! 2) = Inl e"
    | vk where "load (parse_vk lib) (files w) (argv ! 2) = Inr vk"
        "load (parse_proof lib) (files w) (argv ! 1) = Inl e"
    | vk pf m where "load (parse_vk lib) (files w) (argv ! 2) = Inr vk"
        "load (parse_proof lib) (files w) (argv ! 1) = Inr pf"
        "groth16_calldata_from_vk_and_proof lib vk pf = Inl m" "e = LibraryError m"
    unfolding library_calldata_Inl by blast
  then show ?thesis
  proof cases
    case 1
    with assms(1) so show ?thesis
      by (simp add: run_vk_fails written_to_def)
  next
    case (2 vk)
    with assms(1) so show ?thesis
      by (simp add: run_proof_fails written_to_def)
  next
    case (3 vk pf m)
    with assms(1) so show ?thesis
      by (simp add: run_calldata_fails written_to_def)
  qed
qed

theorem library_failure_witness:
  "3 \<le> length [''generate_garaga_calldata.py'', ''proof.json'', ''bad.json'', ''new.json'']
   \<and> library_calldata toy_garaga (files toy_sys) ''proof.json'' ''bad.json'' =
       Inl (LibraryError ''not a key'')
   \<and> exit_status
       (run toy_garaga [''generate_garaga_calldata.py'', ''proof.json'', ''bad.json'', ''new.json'']
          toy_sys) = 1
   \<and> files (final
       (run toy_garaga [''generate_garaga_calldata.py'', ''proof.json'', ''bad.json'', ''new.json'']
          toy_sys)) ''new.json'' = None
   \<and> stdout
       (run toy_garaga [''generate_garaga_calldata.py'', ''proof.json'', ''bad.json'', ''new.json'']
          toy_sys) = []
   \<and> library_calldata toy_garaga (files toy_sys) ''proof.json'' ''none.json'' =
       Inl (FileNotFoundError ''none.json'')
   \<and> exit_status
       (run toy_garaga [''generate_garaga_calldata.py'', ''proof.json'', ''none.json'', ''new.json'']
          toy_sys) = 1
   \<and> files (final
       (run toy_garaga [''generate_garaga_calldata.py'', ''proof.json'', ''none.json'', ''new.json'']
          toy_sys)) ''new.json'' = None
   \<and> stdout
       (run toy_garaga [''generate_garaga_calldata.py'', ''proof.json'', ''none.json'', ''new.json'']
          toy_sys) = ''The file none.json was not found.'' @ [CHR 0x0A]"
proof -
  let ?bad = "[''generate_garaga_calldata.py'', ''proof.json'', ''bad.json'', ''new.json'']"
  let ?none = "[''generate_garaga_calldata.py'', ''proof.json'', ''none.json'', ''new.json'']"
  have len: "3 \<le> length ?bad" "3 \<le> length ?none"
    by simp_all
  have f1: "library_calldata toy_garaga (files toy_sys) (?bad ! 1) (?bad ! 2) =
      Inl (LibraryError ''not a key'')"
    and f2: "library_calldata toy_garaga (files toy_sys) (?none ! 1) (?none ! 2) =
      Inl (FileNotFoundError ''none.json'')"
    by (simp_all add: toy_library)
  have new: "files toy_sys ''new.json'' = None"
    by (simp add: toy_sys_def toy_files_def)
  from library_failure_leaves_no_output [OF len(1) f1]
    library_failure_leaves_no_output [OF len(2) f2] new
  show ?thesis
    by (simp add: toy_library printed_on_def)
qed

theorem library_prints_on_failure_counterexample:
  "3 \<le> length [''generate_garaga_calldata.py'', ''proof.json'', ''none.json'', ''new.json'']
   \<and> toy_files ''none.json'' = None
   \<and> library_calldata toy_garaga (files toy_sys) ''proof.json'' ''none.json'' =
       Inl (FileNotFoundError ''none.json'')
   \<and> exit_status
       (run toy_garaga [''generate_garaga_calldata.py'', ''proof.json'', ''none.json'', ''new.json'']
          toy_sys) = 1
   \<and> stdout
       (run toy_garaga [''generate_garaga_calldata.py'', ''proof.json'', ''none.json'', ''new.json'']
          toy_sys) = ''The file none.json was not found.'' @ [CHR 0x0A]
   \<and> stdout
       (run toy_garaga [''generate_garaga_calldata.py'', ''proof.json'', ''none.json'', ''new.json'']
          toy_sys) \<noteq> []"
proof -
  let ?none = "[''generate_garaga_calldata.py'', ''proof.json'', ''none.json'', ''new.json'']"
  have vk: "load (parse_vk toy_garaga) (files toy_sys) (?none ! 2) =
      Inl (FileNotFoundError ''none.json'')"
    by (simp add: load_def toy_sys_def toy_files_def)
  have r: "run toy_garaga ?none toy_sys =
      \<lparr>exit_status = 1,
       final = toy_sys\<lparr>events :=
         [Parsed ''none.json'' [(Stdout, ''The file none.json was not found.'' @ [CHR 0x0A])],
          Traceback (FileNotFoundError ''none.json'')]\<rparr>\<rparr>"
    using run_vk_fails [OF _ vk] by (simp add: toy_sys_def toy_prints)
  show ?thesis
    unfolding r by (simp add: toy_library toy_prints stdout_def text_on_def printed_on_def)
qed

subsection \<open>Standard output\<close>

text \<open>
  Claim C5, as amended. A run that ends with status 0 and was given no output path (or
  an empty one) prints exactly one line on standard output, the encoding of the result
  object: it is the only text the script writes there, it contains no newline but the
  one that ends it, and it comes last, after whatever the library wrote to standard
  output during its three calls; when the library wrote nothing there, standard output
  is exactly that one line. On every run, whatever its arguments and however it ends,
  the script writes none of its four diagnostic lines (key loaded with curve and IC
  length, proof loaded with curve, calldata generated with the element count, calldata
  written with the path) to standard output: what the script itself writes there is
  nothing, or the usage line, or the line of JSON.
\<close>

theorem script_writes_one_json_line_to_stdout:
  fixes lib :: "('vk, 'pf, 'g) garaga"
  shows "(exit_status (run lib argv w) = 0 \<and> \<not> (3 < length argv \<and> argv ! 3 \<noteq> []) \<longrightarrow>
           (\<exists>cd. library_calldata lib (files w) (argv ! 1) (argv ! 2) = Inr cd
              \<and> written_to Stdout (events (final (run lib argv w))) =
                  dumps (result cd) @ [CHR 0x0A]
              \<and> CHR 0x0A \<notin> set (dumps (result cd))
              \<and> stdout (run lib argv w) =
                  printed_on Stdout (library_printed lib (files w) (argv ! 1) (argv ! 2)) @
                  dumps (result cd) @ [CHR 0x0A]
              \<and> (printed_on Stdout (library_printed lib (files w) (argv ! 1) (argv ! 2)) = []
                   \<longrightarrow> stdout (run lib argv w) = dumps (result cd) @ [CHR 0x0A])))
       \<and> Written Stdout (''VK loaded: curve='' @ c @ '', IC length='' @ n @ [CHR 0x0A])
           \<notin> set (events (final (run lib argv w)))
       \<and> Written Stdout (''Proof loaded: curve='' @ c @ [CHR 0x0A])
           \<notin> set (events (final (run lib argv w)))
       \<and> Written Stdout (''Calldata generated: '' @ n @ '' elements'' @ [CHR 0x0A])
           \<notin> set (events (final (run lib argv w)))
       \<and> Written Stdout (''Calldata written to '' @ p @ [CHR 0x0A])
           \<notin> set (events (final (run lib argv w)))
       \<and> (written_to Stdout (events (final (run lib argv w))) = []
          \<or> written_to Stdout (events (final (run lib argv w))) = usage @ [CHR 0x0A]
          \<or> (\<exists>cd. written_to Stdout (events (final (run lib argv w))) =
                 dumps (result cd) @ [CHR 0x0A]))"
proof -
  have one: "\<exists>cd. library_calldata lib (files w) (argv ! 1) (argv ! 2) = Inr cd
      \<and> written_to Stdout (events (final (run lib argv w))) = dumps (result cd) @ [CHR 0x0A]
      \<and> CHR 0x0A \<notin> set (dumps (result cd))
      \<and> stdout (run lib argv w) =
          printed_on Stdout (library_printed lib (files w) (argv ! 1) (argv ! 2)) @
          dumps (result cd) @ [CHR 0x0A]
      \<and> (printed_on Stdout (library_printed lib (files w) (argv ! 1) (argv ! 2)) = []
           \<longrightarrow> stdout (run lib argv w) = dumps (result cd) @ [CHR 0x0A])"
    if ok: "exit_status (run lib argv w) = 0"
      and no: "\<not> (3 < length argv \<and> argv ! 3 \<noteq> [])"
    using ok
  proof (cases rule: run_success_cases)
    case (to_file vk pf cd q)
    with no show ?thesis by (simp add: output_path_of_def split: if_splits)
  next
    case (to_stdout vk pf cd)
    then have lc: "library_calldata lib (files w) (argv ! 1) (argv ! 2) = Inr cd"
      by (auto simp: library_calldata_Inr)
    have so: "stdout (run lib argv w) =
        printed_on Stdout (library_printed lib (files w) (argv ! 1) (argv ! 2)) @
        written_to Stdout (events (final (run lib argv w)))"
      using to_stdout(1) by (rule stdout_run)
    show ?thesis
      using lc so run_to_stdout [OF to_stdout]
      by (intro exI [of _ cd]) (simp add: written_to_def newline_notin_dumps)
  qed
  have d1: "Written Stdout (''VK loaded: curve='' @ c @ '', IC length='' @ n @ [CHR 0x0A])
      \<notin> set (events (final (run lib argv w)))"
    by (rule not_on_stdout) simp_all
  have d2: "Written Stdout (''Proof loaded: curve='' @ c @ [CHR 0x0A])
      \<notin> set (events (final (run lib argv w)))"
    by (rule not_on_stdout) simp_all
  have d3: "Written Stdout (''Calldata generated: '' @ n @ '' elements'' @ [CHR 0x0A])
      \<notin> set (events (final (run lib argv w)))"
    by (rule not_on_stdout) simp_all
  have d4: "Written Stdout (''Calldata written to '' @ p @ [CHR 0x0A])
      \<notin> set (events (final (run lib argv w)))"
    by (rule not_on_stdout) simp_all
  from one d1 d2 d3 d4 script_stdout_cases [of lib argv w] show ?thesis
    by blast
qed

theorem script_writes_one_json_line_witness:
  \<open>exit_status
     (run toy_garaga [''generate_garaga_calldata.py'', ''proof.json'', ''vk.json''] toy_sys) = 0
   \<and> \<not> (3 < length [''generate_garaga_calldata.py'', ''proof.json'', ''vk.json''])
   \<and> stdout
       (run toy_garaga [''generate_garaga_calldata.py'', ''proof.json'', ''vk.json''] toy_sys) =
       ''{"calldata": ["3", "-12", "0"], "length": 3}'' @ [CHR 0x0A]
   \<and> exit_status
       (run toy_garaga [''generate_garaga_calldata.py'', ''other_proof.json'', ''other.json'']
          toy_sys) = 0
   \<and> written_to Stdout (events (final
       (run toy_garaga [''generate_garaga_calldata.py'', ''other_proof.json'', ''other.json'']
          toy_sys))) = ''{"calldata": ["7", "8"], "length": 2}'' @ [CHR 0x0A]
   \<and> stdout
       (run toy_garaga [''generate_garaga_calldata.py'', ''other_proof.json'', ''other.json'']
          toy_sys) =
       ''Risc0 mode'' @ [CHR 0x0A] @ ''{"calldata": ["7", "8"], "length": 2}'' @ [CHR 0x0A]
   \<and> Written Stdout (''Calldata generated: 2 elements'' @ [CHR 0x0A])
       \<notin> set (events (final
         (run toy_garaga [''generate_garaga_calldata.py'', ''other_proof.json'', ''other.json'']
            toy_sys)))\<close>
proof -
  let ?a = "[''generate_garaga_calldata.py'', ''proof.json'', ''vk.json'']"
  let ?b = "[''generate_garaga_calldata.py'', ''other_proof.json'', ''other.json'']"
  have ok1: "exit_status (run toy_garaga ?a toy_sys) = 0"
    by (simp add: toy_run_stdout)
  have ok2: "exit_status (run toy_garaga ?b toy_sys) = 0"
    by (simp add: toy_run_other_stdout)
  note i1 = script_writes_one_json_line_to_stdout
    [where lib = toy_garaga and argv = ?a and w = toy_sys and c = "''x''" and n = "''2''"
       and p = "''out.json''"]
  note i2 = script_writes_one_json_line_to_stdout
    [where lib = toy_garaga and argv = ?b and w = toy_sys and c = "''x''" and n = "''2''"
       and p = "''out.json''"]
  from i1 i2 ok1 ok2 show ?thesis
    by (simp add: toy_library dumps_result_example dumps_result_example2 printed_on_def)
qed

theorem library_prints_before_json_counterexample:
  \<open>exit_status
     (run toy_garaga [''generate_garaga_calldata.py'', ''other_proof.json'', ''other.json'']
        toy_sys) = 0
   \<and> output_path_of [''generate_garaga_calldata.py'', ''other_proof.json'', ''other.json''] = None
   \<and> stdout
       (run toy_garaga [''generate_garaga_calldata.py'', ''other_proof.json'', ''other.json'']
          toy_sys) =
       ''Risc0 mode'' @ [CHR 0x0A] @ ''{"calldata": ["7", "8"], "length": 2}'' @ [CHR 0x0A]
   \<and> stdout
       (run toy_garaga [''generate_garaga_calldata.py'', ''other_proof.json'', ''other.json'']
          toy_sys) \<noteq> ''{"calldata": ["7", "8"], "length": 2}'' @ [CHR 0x0A]\<close>
  unfolding toy_run_other_stdout
  by (simp add: output_path_of_def stdout_def text_on_def printed_on_def dumps_result_example2)

subsection \<open>The order of the steps\<close>

text \<open>
  Claim C6. In a run that passes the argument check the steps come in one fixed order:
  the verifying key is parsed from the file at \<open>argv[2]\<close>, and the line
  \<open>VK loaded: curve=\<close> with its curve, \<open>, IC length=\<close> and the length of its IC list
  goes to the error stream; then the proof is parsed from the file at \<open>argv[1]\<close>, and
  the line \<open>Proof loaded: curve=\<close> with its curve goes to the error stream; then the
  calldata function is called on the two, and the line \<open>Calldata generated: \<close> with the
  number of elements and \<open> elements\<close> goes to the error stream. A step that fails ends
  the run with its trace, and the steps before it are the same: there is no other path
  through these six steps.
\<close>

theorem steps_come_in_fixed_order:
  fixes lib :: "('vk, 'pf, 'g) garaga"
  assumes "3 \<le> length argv"
  shows "(\<forall>e. load (parse_vk lib) (files w) (argv ! 2) = Inl e \<longrightarrow>
            events (final (run lib argv w)) =
              [Parsed (argv ! 2) (vk_from_json_prints lib (argv ! 2) (files w (argv ! 2))),
               Traceback e])
       \<and> (\<forall>vk e. load (parse_vk lib) (files w) (argv ! 2) = Inr vk
              \<and> load (parse_proof lib) (files w) (argv ! 1) = Inl e \<longrightarrow>
            events (final (run lib argv w)) =
              [Parsed (argv ! 2) (vk_from_json_prints lib (argv ! 2) (files w (argv ! 2))),
               Written Stderr (''VK loaded: curve='' @ vk_curve_id lib vk @ '', IC length='' @
                 str (int (length (ic lib vk))) @ [CHR 0x0A]),
               Parsed (argv ! 1) (proof_from_json_prints lib (argv ! 1) (files w (argv ! 1))),
               Traceback e])
       \<and> (\<forall>vk pf m. load (parse_vk lib) (files w) (argv ! 2) = Inr vk
              \<and> load (parse_proof lib) (files w) (argv ! 1) = Inr pf
              \<and> groth16_calldata_from_vk_and_proof lib vk pf = Inl m \<longrightarrow>
            events (final (run lib argv w)) =
              [Parsed (argv ! 2) (vk_from_json_prints lib (argv ! 2) (files w (argv ! 2))),
               Written Stderr (''VK loaded: curve='' @ vk_curve_id lib vk @ '', IC length='' @
                 str (int (length (ic lib vk))) @ [CHR 0x0A]),
               Parsed (argv ! 1) (proof_from_json_prints lib (argv ! 1) (files w (argv ! 1))),
               Written Stderr (''Proof loaded: curve='' @ proof_curve_id lib pf @ [CHR 0x0A]),
               Computed (calldata_prints lib vk pf), Traceback (LibraryError m)])
       \<and> (\<forall>vk pf cd. load (parse_vk lib) (files w) (argv ! 2) = Inr vk
              \<and> load (parse_proof lib) (files w) (argv ! 1) = Inr pf
              \<and> groth16_calldata_from_vk_and_proof lib vk pf = Inr cd \<longrightarrow>
            take 6 (events (final (run lib argv w))) =
              [Parsed (argv ! 2) (vk_from_json_prints lib (argv ! 2) (files w (argv ! 2))),
               Written Stderr (''VK loaded: curve='' @ vk_curve_id lib vk @ '', IC length='' @
                 str (int (length (ic lib vk))) @ [CHR 0x0A]),
               Parsed (argv ! 1) (proof_from_json_prints lib (argv ! 1) (files w (argv ! 1))),
               Written Stderr (''Proof loaded: curve='' @ proof_curve_id lib pf @ [CHR 0x0A]),
               Computed (calldata_prints lib vk pf),
               Written Stderr (''Calldata generated: '' @ str (int (length cd)) @
                 '' elements'' @ [CHR 0x0A])])"
proof (intro conjI allI impI)
  fix e assume "load (parse_vk lib) (files w) (argv ! 2) = Inl e"
  with assms show "events (final (run lib argv w)) =
      [Parsed (argv ! 2) (vk_from_json_prints lib (argv ! 2) (files w (argv ! 2))),
       Traceback e]"
    by (simp add: run_vk_fails)
next
  fix vk e
  assume "load (parse_vk lib) (files w) (argv ! 2) = Inr vk
    \<and> load (parse_proof lib) (files w) (argv ! 1) = Inl e"
  with assms show "events (final (run lib argv w)) =
      [Parsed (argv ! 2) (vk_from_json_prints lib (argv ! 2) (files w (argv ! 2))),
       Written Stderr (''VK loaded: curve='' @ vk_curve_id lib vk @ '', IC length='' @
         str (int (length (ic lib vk))) @ [CHR 0x0A]),
       Parsed (argv ! 1) (proof_from_json_prints lib (argv ! 1) (files w (argv ! 1))),
       Traceback e]"
    by (simp add: run_proof_fails vk_loaded_def)
next
  fix vk pf m
  assume "load (parse_vk lib) (files w) (argv ! 2) = Inr vk
    \<and> load (parse_proof lib) (files w) (argv ! 1) = Inr pf
    \<and> groth16_calldata_from_vk_and_proof lib vk pf = Inl m"
  with assms show "events (final (run lib argv w)) =
      [Parsed (argv ! 2) (vk_from_json_prints lib (argv ! 2) (files w (argv ! 2))),
       Written Stderr (''VK loaded: curve='' @ vk_curve_id lib vk @ '', IC length='' @
         str (int (length (ic lib vk))) @ [CHR 0x0A]),
       Parsed (argv ! 1) (proof_from_json_prints lib (argv ! 1) (files w (argv ! 1))),
       Written Stderr (''Proof loaded: curve='' @ proof_curve_id lib pf @ [CHR 0x0A]),
       Computed (calldata_prints lib vk pf), Traceback (LibraryError m)]"
    by (simp add: run_calldata_fails vk_loaded_def proof_loaded_def)
next
  fix vk pf cd
  assume a: "load (parse_vk lib) (files w) (argv ! 2) = Inr vk
    \<and> load (parse_proof lib) (files w) (argv ! 1) = Inr pf
    \<and> groth16_calldata_from_vk_and_proof lib vk pf = Inr cd"
  show "take 6 (events (final (run lib argv w))) =
      [Parsed (argv ! 2) (vk_from_json_prints lib (argv ! 2) (files w (argv ! 2))),
       Written Stderr (''VK loaded: curve='' @ vk_curve_id lib vk @ '', IC length='' @
         str (int (length (ic lib vk))) @ [CHR 0x0A]),
       Parsed (argv ! 1) (proof_from_json_prints lib (argv ! 1) (files w (argv ! 1))),
       Written Stderr (''Proof loaded: curve='' @ proof_curve_id lib pf @ [CHR 0x0A]),
       Computed (calldata_prints lib vk pf),
       Written Stderr (''Calldata generated: '' @ str (int (length cd)) @
         '' elements'' @ [CHR 0x0A])]"
  proof (cases "truthy (output_path_of argv)")
    case False
    with assms a show ?thesis
      by (simp add: run_to_stdout vk_loaded_def proof_loaded_def calldata_generated_def)
  next
    case True
    then obtain p where p: "output_path_of argv = Some p" "p \<noteq> []"
      by (auto simp: truthy_Some)
    show ?thesis
    proof (cases "writable w p")
      case True
      with assms a p show ?thesis
        by (simp add: run_to_file vk_loaded_def proof_loaded_def calldata_generated_def)
    next
      case False
      with assms a p show ?thesis
        by (simp add: run_open_fails vk_loaded_def proof_loaded_def calldata_generated_def)
    qed
  qed
qed

theorem steps_come_in_fixed_order_witness:
  "3 \<le> length [''generate_garaga_calldata.py'', ''proof.json'', ''none.json'', ''new.json'']
   \<and> events (final
       (run toy_garaga [''generate_garaga_calldata.py'', ''proof.json'', ''none.json'', ''new.json'']
          toy_sys)) =
       [Parsed ''none.json'' [(Stdout, ''The file none.json was not found.'' @ [CHR 0x0A])],
        Traceback (FileNotFoundError ''none.json'')]
   \<and> events (final
       (run toy_garaga [''generate_garaga_calldata.py'', ''none.json'', ''vk.json''] toy_sys)) =
       [Parsed ''vk.json'' [],
        Written Stderr (''VK loaded: curve=BN254, IC length=3'' @ [CHR 0x0A]),
        Parsed ''none.json'' [(Stdout, ''The file none.json was not found.'' @ [CHR 0x0A])],
        Traceback (FileNotFoundError ''none.json'')]
   \<and> events (final
       (run toy_garaga [''generate_garaga_calldata.py'', ''proof.json'', ''other.json''] toy_sys)) =
       [Parsed ''other.json'' [],
        Written Stderr (''VK loaded: curve=BLS12, IC length=2'' @ [CHR 0x0A]),
        Parsed ''proof.json'' [], Written Stderr (''Proof loaded: curve=BN254'' @ [CHR 0x0A]),
        Computed [(Stdout, ''Risc0 mode'' @ [CHR 0x0A])],
        Traceback (LibraryError ''curve mismatch'')]
   \<and> take 6 (events (final
       (run toy_garaga [''generate_garaga_calldata.py'', ''proof.json'', ''vk.json'', ''out.json'']
          toy_sys))) =
       [Parsed ''vk.json'' [],
        Written Stderr (''VK loaded: curve=BN254, IC length=3'' @ [CHR 0x0A]),
        Parsed ''proof.json'' [], Written Stderr (''Proof loaded: curve=BN254'' @ [CHR 0x0A]),
        Computed [], Written Stderr (''Calldata generated: 3 elements'' @ [CHR 0x0A])]
   \<and> take 6 (events (final
       (run toy_garaga [''generate_garaga_calldata.py'', ''other_proof.json'', ''other.json'']
          toy_sys))) =
       [Parsed ''other.json'' [],
        Written Stderr (''VK loaded: curve=BLS12, IC length=2'' @ [CHR 0x0A]),
        Parsed ''other_proof.json'' [],
        Written Stderr (''Proof loaded: curve=BLS12'' @ [CHR 0x0A]),
        Computed [(Stdout, ''Risc0 mode'' @ [CHR 0x0A])],
        Written Stderr (''Calldata generated: 2 elements'' @ [CHR 0x0A])]"
proof -
  let ?a1 = "[''generate_garaga_calldata.py'', ''proof.json'', ''none.json'', ''new.json'']"
  let ?a2 = "[''generate_garaga_calldata.py'', ''none.json'', ''vk.json'']"
  let ?a3 = "[''generate_garaga_calldata.py'', ''proof.json'', ''other.json'']"
  let ?a4 = "[''generate_garaga_calldata.py'', ''proof.json'', ''vk.json'', ''out.json'']"
  let ?a5 = "[''generate_garaga_calldata.py'', ''other_proof.json'', ''other.json'']"
  have fs: "files toy_sys = toy_files"
    by (simp add: toy_sys_def)
  have strs: "str 3 = ''3''" "str 2 = ''2''"
    by code_simp+
  have attrs: "vk_curve_id toy_garaga ''BN254'' = ''BN254''"
    "vk_curve_id toy_garaga ''BLS12'' = ''BLS12''"
    "proof_curve_id toy_garaga ''BN254'' = ''BN254''"
    "proof_curve_id toy_garaga ''BLS12'' = ''BLS12''"
    "length (ic toy_garaga ''BN254'') = 3" "length (ic toy_garaga ''BLS12'') = 2"
    by (simp_all add: toy_garaga_def)
  have l1: "load (parse_vk toy_garaga) toy_files ''none.json'' = Inl (FileNotFoundError ''none.json'')"
    and l2: "load (parse_proof toy_garaga) toy_files ''none.json'' = Inl (FileNotFoundError ''none.json'')"
    and l3: "load (parse_vk toy_garaga) toy_files ''other.json'' = Inr ''BLS12''"
    and l4: "load (parse_proof toy_garaga) toy_files ''other_proof.json'' = Inr ''BLS12''"
    by (simp_all add: load_def toy_files_def toy_garaga_def)
  have c3: "groth16_calldata_from_vk_and_proof toy_garaga ''BLS12'' ''BN254'' = Inl ''curve mismatch''"
    and c5: "groth16_calldata_from_vk_and_proof toy_garaga ''BLS12'' ''BLS12'' = Inr [7, 8]"
    by (simp_all add: toy_garaga_def)
  have len: "3 \<le> length ?a1" "3 \<le> length ?a2" "3 \<le> length ?a3" "3 \<le> length ?a4"
    "3 \<le> length ?a5"
    by simp_all
  from steps_come_in_fixed_order [OF len(1), of toy_garaga toy_sys]
  have e1: "events (final (run toy_garaga ?a1 toy_sys)) =
      [Parsed ''none.json'' [(Stdout, ''The file none.json was not found.'' @ [CHR 0x0A])],
       Traceback (FileNotFoundError ''none.json'')]"
    by (simp add: fs l1 toy_prints)
  from steps_come_in_fixed_order [OF len(2), of toy_garaga toy_sys]
  have e2: "events (final (run toy_garaga ?a2 toy_sys)) =
      [Parsed ''vk.json'' [],
       Written Stderr (''VK loaded: curve=BN254, IC length=3'' @ [CHR 0x0A]),
       Parsed ''none.json'' [(Stdout, ''The file none.json was not found.'' @ [CHR 0x0A])],
       Traceback (FileNotFoundError ''none.json'')]"
    by (simp add: fs toy_load_vk l2 toy_prints attrs strs)
  from steps_come_in_fixed_order [OF len(3), of toy_garaga toy_sys]
  have e3: "events (final (run toy_garaga ?a3 toy_sys)) =
      [Parsed ''other.json'' [],
       Written Stderr (''VK loaded: curve=BLS12, IC length=2'' @ [CHR 0x0A]),
       Parsed ''proof.json'' [], Written Stderr (''Proof loaded: curve=BN254'' @ [CHR 0x0A]),
       Computed [(Stdout, ''Risc0 mode'' @ [CHR 0x0A])],
       Traceback (LibraryError ''curve mismatch'')]"
    by (simp add: fs l3 toy_load_proof c3 toy_prints attrs strs)
  from steps_come_in_fixed_order [OF len(4), of toy_garaga toy_sys]
  have e4: "take 6 (events (final (run toy_garaga ?a4 toy_sys))) =
      [Parsed ''vk.json'' [],
       Written Stderr (''VK loaded: curve=BN254, IC length=3'' @ [CHR 0x0A]),
       Parsed ''proof.json'' [], Written Stderr (''Proof loaded: curve=BN254'' @ [CHR 0x0A]),
       Computed [], Written Stderr (''Calldata generated: 3 elements'' @ [CHR 0x0A])]"
    by (simp add: fs toy_load_vk toy_load_proof toy_calldata toy_prints attrs strs)
  from steps_come_in_fixed_order [OF len(5), of toy_garaga toy_sys]
  have e5: "take 6 (events (final (run toy_garaga ?a5 toy_sys))) =
      [Parsed ''other.json'' [],
       Written Stderr (''VK loaded: curve=BLS12, IC length=2'' @ [CHR 0x0A]),
       Parsed ''other_proof.json'' [],
       Written Stderr (''Proof loaded: curve=BLS12'' @ [CHR 0x0A]),
       Computed [(Stdout, ''Risc0 mode'' @ [CHR 0x0A])],
       Written Stderr (''Calldata generated: 2 elements'' @ [CHR 0x0A])]"
    by (simp add: fs l3 l4 c5 toy_prints attrs strs)
  from e1 e2 e3 e4 e5 show ?thesis
    by (simp only: len simp_thms)
qed

subsection \<open>The output file\<close>

text \<open>
  Claim C7. In a run that ends with status 0 and was given an output path that names
  an existing file, the file is opened for writing and afterwards holds exactly the
  encoding of the result object, whatever it held before; every other path holds what
  it held before the run.
\<close>

theorem output_file_is_overwritten:
  assumes "exit_status (run lib argv w) = 0"
    and "truthy (output_path_of argv)"
    and "files w (argv ! 3) = Some old"
  shows "\<exists>cd. library_calldata lib (files w) (argv ! 1) (argv ! 2) = Inr cd
      \<and> files (final (run lib argv w)) = (files w)(argv ! 3 \<mapsto> dumps (result cd))
      \<and> Opened (argv ! 3) \<in> set (events (final (run lib argv w)))"
  using assms(1)
proof (cases rule: run_success_cases)
  case (to_file vk pf cd p)
  then have lc: "library_calldata lib (files w) (argv ! 1) (argv ! 2) = Inr cd"
    by (auto simp: library_calldata_Inr)
  from to_file have p: "argv ! 3 = p"
    by (auto simp: output_path_of_def split: if_splits)
  show ?thesis
    using lc p run_to_file [OF to_file]
    by (intro exI [of _ cd]) simp
next
  case (to_stdout vk pf cd)
  with assms(2) show ?thesis by simp
qed

theorem output_file_is_overwritten_witness:
  \<open>exit_status
     (run toy_garaga [''generate_garaga_calldata.py'', ''proof.json'', ''vk.json'', ''out.json'']
        toy_sys) = 0
   \<and> truthy (output_path_of [''generate_garaga_calldata.py'', ''proof.json'', ''vk.json'', ''out.json''])
   \<and> files toy_sys ''out.json'' = Some ''stale''
   \<and> files (final
       (run toy_garaga [''generate_garaga_calldata.py'', ''proof.json'', ''vk.json'', ''out.json'']
          toy_sys)) =
       (files toy_sys)(''out.json'' \<mapsto> ''{"calldata": ["3", "-12", "0"], "length": 3}'')\<close>
proof -
  let ?argv = "[''generate_garaga_calldata.py'', ''proof.json'', ''vk.json'', ''out.json'']"
  have ok: "exit_status (run toy_garaga ?argv toy_sys) = 0"
    by (simp add: toy_run_file)
  have given: "truthy (output_path_of ?argv)"
    by (simp add: truthy_def output_path_of_def)
  have old: "files toy_sys (?argv ! 3) = Some ''stale''"
    by (simp add: toy_sys_def toy_files_def)
  have lc: "library_calldata toy_garaga (files toy_sys) ''proof.json'' ''vk.json'' = Inr [3, - 12, 0]"
    by (simp add: toy_sys_def toy_library_calldata)
  from output_file_is_overwritten [OF ok given old] ok given old show ?thesis
    by (simp add: lc dumps_result_example)
qed

subsection \<open>An empty output path, and arguments after the third\<close>

lemma run_without_output_path:
  fixes lib :: "('vk, 'pf, 'g) garaga"
  shows "run lib (a0 # pp # vp # [] # rest) w = run lib [a0, pp, vp] w"
  by (simp add: run_def main_def output_path_of_def truthy_def Let_def)

lemma run_ignores_extra_arguments:
  fixes lib :: "('vk, 'pf, 'g) garaga"
  shows "run lib (a0 # pp # vp # out # x # rest) w = run lib [a0, pp, vp, out] w"
  by (simp add: run_def main_def output_path_of_def Let_def)

lemma usage_not_json: "usage @ [CHR 0x0A] \<noteq> dumps (result cd) @ [CHR 0x0A]"
  by (simp add: usage_def result_def)

text \<open>
  Claim C9. When the third positional argument is the empty string, the run is the run
  without an output path, whatever arguments follow: no file is opened for writing, the
  files are what they were, and a run that ends with status 0 has written the line of
  JSON to standard output: it is the only text the script writes there and the last
  thing the run does, so standard output is what the library wrote to it followed by
  that line.
\<close>

theorem empty_output_path_goes_to_stdout:
  fixes lib :: "('vk, 'pf, 'g) garaga"
  shows "run lib (a0 # pp # vp # [] # rest) w = run lib [a0, pp, vp] w
       \<and> \<not> truthy (output_path_of (a0 # pp # vp # [] # rest))
       \<and> files (final (run lib (a0 # pp # vp # [] # rest) w)) = files w
       \<and> Opened p \<notin> set (events (final (run lib (a0 # pp # vp # [] # rest) w)))
       \<and> (exit_status (run lib (a0 # pp # vp # [] # rest) w) = 0 \<longrightarrow>
            (\<exists>cd. library_calldata lib (files w) pp vp = Inr cd
               \<and> last (events (final (run lib (a0 # pp # vp # [] # rest) w))) =
                   Written Stdout (dumps (result cd) @ [CHR 0x0A])
               \<and> written_to Stdout (events (final (run lib (a0 # pp # vp # [] # rest) w))) =
                   dumps (result cd) @ [CHR 0x0A]
               \<and> stdout (run lib (a0 # pp # vp # [] # rest) w) =
                   printed_on Stdout (library_printed lib (files w) pp vp) @
                   dumps (result cd) @ [CHR 0x0A]))"
proof -
  let ?argv = "a0 # pp # vp # [] # rest"
  have no: "\<not> truthy (output_path_of ?argv)"
    by (simp add: truthy_def output_path_of_def)
  have frame: "files (final (run lib ?argv w)) = files w
      \<and> Opened p \<notin> set (events (final (run lib ?argv w)))"
  proof (cases rule: run_cases [where lib = lib and argv = ?argv and w = w])
    case usage
    then show ?thesis by simp
  next
    case (vk_fails e)
    then show ?thesis using run_vk_fails [OF vk_fails] by simp
  next
    case (proof_fails vk e)
    then show ?thesis using run_proof_fails [OF proof_fails] by simp
  next
    case (calldata_fails vk pf m)
    then show ?thesis using run_calldata_fails [OF calldata_fails] by simp
  next
    case (open_fails vk pf cd q)
    with no show ?thesis by (simp add: truthy_def)
  next
    case (to_file vk pf cd q)
    with no show ?thesis by (simp add: truthy_def)
  next
    case (to_stdout vk pf cd)
    then show ?thesis using run_to_stdout [OF to_stdout] by simp
  qed
  have out: "\<exists>cd. library_calldata lib (files w) pp vp = Inr cd
      \<and> last (events (final (run lib ?argv w))) = Written Stdout (dumps (result cd) @ [CHR 0x0A])
      \<and> written_to Stdout (events (final (run lib ?argv w))) = dumps (result cd) @ [CHR 0x0A]
      \<and> stdout (run lib ?argv w) =
          printed_on Stdout (library_printed lib (files w) pp vp) @ dumps (result cd) @ [CHR 0x0A]"
    if ok: "exit_status (run lib ?argv w) = 0"
    using ok
  proof (cases rule: run_success_cases)
    case (to_file vk pf cd q)
    with no show ?thesis by (simp add: truthy_def)
  next
    case (to_stdout vk pf cd)
    then have lc: "library_calldata lib (files w) pp vp = Inr cd"
      by (auto simp: library_calldata_Inr)
    have so: "stdout (run lib ?argv w) =
        printed_on Stdout (library_printed lib (files w) (?argv ! 1) (?argv ! 2)) @
        written_to Stdout (events (final (run lib ?argv w)))"
      using to_stdout(1) by (rule stdout_run)
    show ?thesis
      using lc so run_to_stdout [OF to_stdout]
      by (intro exI [of _ cd]) (simp add: written_to_def)
  qed
  from no frame out show ?thesis
    by (simp add: run_without_output_path)
qed

theorem empty_output_path_witness:
  \<open>run toy_garaga [''generate_garaga_calldata.py'', ''proof.json'', ''vk.json'', []] toy_sys =
     run toy_garaga [''generate_garaga_calldata.py'', ''proof.json'', ''vk.json''] toy_sys
   \<and> exit_status
       (run toy_garaga [''generate_garaga_calldata.py'', ''proof.json'', ''vk.json'', []] toy_sys) = 0
   \<and> stdout
       (run toy_garaga [''generate_garaga_calldata.py'', ''proof.json'', ''vk.json'', []] toy_sys) =
       ''{"calldata": ["3", "-12", "0"], "length": 3}'' @ [CHR 0x0A]
   \<and> files (final
       (run toy_garaga [''generate_garaga_calldata.py'', ''proof.json'', ''vk.json'', []] toy_sys)) =
       files toy_sys\<close>
proof -
  let ?a0 = "''generate_garaga_calldata.py''"
  let ?argv = "[?a0, ''proof.json'', ''vk.json'', []]"
  note inst = empty_output_path_goes_to_stdout
    [where lib = toy_garaga and ?a0.0 = ?a0 and pp = "''proof.json''" and vp = "''vk.json''"
       and rest = "[]" and w = toy_sys and p = "''out.json''"]
  from inst have eq: "run toy_garaga ?argv toy_sys =
      run toy_garaga [?a0, ''proof.json'', ''vk.json''] toy_sys"
    by (rule conjunct1)
  have ok: "exit_status (run toy_garaga ?argv toy_sys) = 0"
    by (simp add: eq toy_run_stdout)
  from inst ok have "\<exists>cd. library_calldata toy_garaga (files toy_sys) ''proof.json'' ''vk.json'' = Inr cd
      \<and> stdout (run toy_garaga ?argv toy_sys) =
          printed_on Stdout (library_printed toy_garaga (files toy_sys) ''proof.json'' ''vk.json'') @
          dumps (result cd) @ [CHR 0x0A]"
    by blast
  then have so: "stdout (run toy_garaga ?argv toy_sys) = dumps (result [3, - 12, 0]) @ [CHR 0x0A]"
    by (simp add: toy_library printed_on_def)
  from inst have fs: "files (final (run toy_garaga ?argv toy_sys)) = files toy_sys"
    by blast
  show ?thesis
    unfolding dumps_result_example [symmetric]
    by (intro conjI) (rule eq, rule ok, rule so, rule fs)
qed

text \<open>
  Claim C10. With more than three positional arguments the invocation is not rejected:
  the run is the run on the first three of them. The usage line is not printed; the
  first thing the run does is to parse the verifying key from the second argument;
  when that succeeds, the proof is parsed from the first argument; and a run that ends
  with status 0 with a non-empty third argument has written the JSON to the file at
  that path.
\<close>

theorem extra_arguments_are_ignored:
  fixes lib :: "('vk, 'pf, 'g) garaga"
  shows "run lib (a0 # pp # vp # out # x # rest) w = run lib [a0, pp, vp, out] w
       \<and> output_path_of (a0 # pp # vp # out # x # rest) = Some out
       \<and> Written Stdout (usage @ [CHR 0x0A])
           \<notin> set (events (final (run lib (a0 # pp # vp # out # x # rest) w)))
       \<and> hd (events (final (run lib (a0 # pp # vp # out # x # rest) w))) =
           Parsed vp (vk_from_json_prints lib vp (files w vp))
       \<and> (\<forall>vk. load (parse_vk lib) (files w) vp = Inr vk \<longrightarrow>
            events (final (run lib (a0 # pp # vp # out # x # rest) w)) ! 2 =
              Parsed pp (proof_from_json_prints lib pp (files w pp)))
       \<and> (exit_status (run lib (a0 # pp # vp # out # x # rest) w) = 0 \<and> out \<noteq> [] \<longrightarrow>
            (\<exists>cd. library_calldata lib (files w) pp vp = Inr cd
               \<and> files (final (run lib (a0 # pp # vp # out # x # rest) w)) out =
                   Some (dumps (result cd))))"
proof -
  let ?argv = "a0 # pp # vp # out # x # rest"
  have steps: "Written Stdout (usage @ [CHR 0x0A]) \<notin> set (events (final (run lib ?argv w)))
      \<and> hd (events (final (run lib ?argv w))) =
          Parsed vp (vk_from_json_prints lib vp (files w vp))
      \<and> (\<forall>vk. load (parse_vk lib) (files w) vp = Inr vk \<longrightarrow>
            events (final (run lib ?argv w)) ! 2 =
              Parsed pp (proof_from_json_prints lib pp (files w pp)))"
  proof (cases rule: run_cases [where lib = lib and argv = ?argv and w = w])
    case usage
    then show ?thesis by simp
  next
    case (vk_fails e)
    then show ?thesis using run_vk_fails [OF vk_fails] by simp
  next
    case (proof_fails vk e)
    then show ?thesis using run_proof_fails [OF proof_fails] by simp
  next
    case (calldata_fails vk pf m)
    then show ?thesis using run_calldata_fails [OF calldata_fails] by simp
  next
    case (open_fails vk pf cd q)
    then show ?thesis using run_open_fails [OF open_fails] by simp
  next
    case (to_file vk pf cd q)
    then show ?thesis using run_to_file [OF to_file] by simp
  next
    case (to_stdout vk pf cd)
    then show ?thesis using run_to_stdout [OF to_stdout] usage_not_json [of cd] by simp
  qed
  have to_out: "\<exists>cd. library_calldata lib (files w) pp vp = Inr cd
      \<and> files (final (run lib ?argv w)) out = Some (dumps (result cd))"
    if ok: "exit_status (run lib ?argv w) = 0" and ne: "out \<noteq> []"
    using ok
  proof (cases rule: run_success_cases)
    case (to_file vk pf cd q)
    then have "library_calldata lib (files w) pp vp = Inr cd"
      by (auto simp: library_calldata_Inr)
    moreover from to_file have "q = out"
      by (simp add: output_path_of_def)
    ultimately show ?thesis
      using run_to_file [OF to_file]
      by (intro exI [of _ cd]) simp
  next
    case (to_stdout vk pf cd)
    with ne show ?thesis by (simp add: truthy_def output_path_of_def)
  qed
  from steps to_out show ?thesis
    by (simp add: run_ignores_extra_arguments output_path_of_def)
qed

theorem extra_arguments_witness:
  \<open>run toy_garaga
     [''generate_garaga_calldata.py'', ''proof.json'', ''vk.json'', ''out.json'', ''--verbose'', ''x'']
     toy_sys =
     run toy_garaga [''generate_garaga_calldata.py'', ''proof.json'', ''vk.json'', ''out.json'']
       toy_sys
   \<and> exit_status
       (run toy_garaga
          [''generate_garaga_calldata.py'', ''proof.json'', ''vk.json'', ''out.json'', ''--verbose'', ''x'']
          toy_sys) = 0
   \<and> files (final
       (run toy_garaga
          [''generate_garaga_calldata.py'', ''proof.json'', ''vk.json'', ''out.json'', ''--verbose'', ''x'']
          toy_sys)) ''out.json'' = Some ''{"calldata": ["3", "-12", "0"], "length": 3}''\<close>
proof -
  let ?a0 = "''generate_garaga_calldata.py''"
  let ?long = "[?a0, ''proof.json'', ''vk.json'', ''out.json'', ''--verbose'', ''x'']"
  have lc: "library_calldata toy_garaga (files toy_sys) ''proof.json'' ''vk.json'' = Inr [3, - 12, 0]"
    by (simp add: toy_library)
  note inst = extra_arguments_are_ignored
    [where lib = toy_garaga and ?a0.0 = ?a0 and pp = "''proof.json''" and vp = "''vk.json''"
       and out = "''out.json''" and x = "''--verbose''" and rest = "[''x'']" and w = toy_sys]
  from inst have eq: "run toy_garaga ?long toy_sys =
      run toy_garaga [?a0, ''proof.json'', ''vk.json'', ''out.json''] toy_sys"
    by (rule conjunct1)
  have ok: "exit_status (run toy_garaga ?long toy_sys) = 0"
    by (simp add: eq toy_run_file)
  have ne: "''out.json'' \<noteq> []"
    by simp
  from inst ok ne have "\<exists>cd. library_calldata toy_garaga (files toy_sys) ''proof.json'' ''vk.json'' = Inr cd
      \<and> files (final (run toy_garaga ?long toy_sys)) ''out.json'' = Some (dumps (result cd))"
    by blast
  then have out: "files (final (run toy_garaga ?long toy_sys)) ''out.json'' =
      Some (dumps (result [3, - 12, 0]))"
    by (simp add: lc)
  show ?thesis
    unfolding dumps_result_example [symmetric]
    by (intro conjI) (rule eq, rule ok, rule out)
qed

end
